theory Spec2Isabelle
  imports Complex_Main "HOL-Library.Log_Nat"
begin

section \<open>Python values used by the cost calculator\<close>

text \<open>
  The calculator of \<^verbatim>\<open>scripts/cost-calculator.py\<close> computes with Python \<^verbatim>\<open>int\<close>
  (unbounded) and Python \<^verbatim>\<open>float\<close> (IEEE 754 binary64).  Every raise of the
  source is a value of \<open>py_error\<close>; a computation that may raise returns
  \<open>py_error + 'a\<close>.
\<close>

datatype py_error = ValueError string | KeyError string | OverflowError | ZeroDivisionError

definition ebind :: "py_error + 'a \<Rightarrow> ('a \<Rightarrow> py_error + 'b) \<Rightarrow> py_error + 'b" where
  "ebind m f = (case m of Inl e \<Rightarrow> Inl e | Inr v \<Rightarrow> f v)"

subsection \<open>binary64 floats\<close>

text \<open>
  A float is its exact rational value, an infinity, or not-a-number.  The two
  zeros are one value: Python's \<^verbatim>\<open>==\<close> identifies them, and addition,
  multiplication and division by a non-zero number, the only float operations
  of the calculator, cannot tell them apart.
\<close>

datatype pyfloat = Finite rat | PosInf | NegInf | NaN

fun is_finite :: "pyfloat \<Rightarrow> bool" where
  "is_finite (Finite v) = True"
| "is_finite PosInf = False"
| "is_finite NegInf = False"
| "is_finite NaN = False"

text \<open>\<open>ilog2 q\<close> is \<open>\<lfloor>log\<^sub>2 q\<rfloor>\<close> for a positive rational \<open>q\<close>.\<close>

definition ilog2 :: "rat \<Rightarrow> int" where
  "ilog2 q = (if 1 \<le> q then bitlen \<lfloor>q\<rfloor> - 1
     else (let r = 1 / q; m = bitlen \<lfloor>r\<rfloor> - 1 in if r = 2 ^ nat m then - m else - m - 1))"

definition round_half_even :: "rat \<Rightarrow> int" where
  "round_half_even q = (let f = \<lfloor>q\<rfloor>; d = q - of_int f in
      if d < 1/2 then f else if 1/2 < d then f + 1 else if even f then f else f + 1)"

text \<open>
  Rounding to the nearest binary64 number, ties to even: 53 significant bits,
  least exponent \<open>-1074\<close> (subnormal numbers), overflow to an infinity from
  \<open>2\<^sup>1\<^sup>0\<^sup>2\<^sup>4\<close> on.  IEEE 754 defines the result of every arithmetic operation
  as this rounding of the exact result.
\<close>

definition fl_round :: "rat \<Rightarrow> pyfloat" where
  "fl_round q = (if q = 0 then Finite 0 else
     let e = max (ilog2 \<bar>q\<bar> - 52) (- 1074);
         v = of_int (round_half_even (q / (2 powi e))) * (2 powi e) in
       if 2 ^ 1024 \<le> v then PosInf else if v \<le> - (2 ^ 1024) then NegInf else Finite v)"

fun fl_add :: "pyfloat \<Rightarrow> pyfloat \<Rightarrow> pyfloat" where
  "fl_add (Finite a) (Finite b) = fl_round (a + b)"
| "fl_add NaN y = NaN"
| "fl_add x NaN = NaN"
| "fl_add PosInf NegInf = NaN"
| "fl_add NegInf PosInf = NaN"
| "fl_add PosInf y = PosInf"
| "fl_add x PosInf = PosInf"
| "fl_add NegInf y = NegInf"
| "fl_add x NegInf = NegInf"

definition inf_times :: "bool \<Rightarrow> rat \<Rightarrow> pyfloat" where
  "inf_times positive a =
     (if a = 0 then NaN else if (0 < a) = positive then PosInf else NegInf)"

fun fl_mul :: "pyfloat \<Rightarrow> pyfloat \<Rightarrow> pyfloat" where
  "fl_mul (Finite a) (Finite b) = fl_round (a * b)"
| "fl_mul NaN y = NaN"
| "fl_mul x NaN = NaN"
| "fl_mul (Finite a) PosInf = inf_times True a"
| "fl_mul (Finite a) NegInf = inf_times False a"
| "fl_mul PosInf (Finite b) = inf_times True b"
| "fl_mul NegInf (Finite b) = inf_times False b"
| "fl_mul PosInf PosInf = PosInf"
| "fl_mul PosInf NegInf = NegInf"
| "fl_mul NegInf PosInf = NegInf"
| "fl_mul NegInf NegInf = PosInf"

text \<open>Float division raises \<^verbatim>\<open>ZeroDivisionError\<close> on a zero divisor.\<close>

fun fl_div :: "pyfloat \<Rightarrow> pyfloat \<Rightarrow> py_error + pyfloat" where
  "fl_div x (Finite b) =
     (if b = 0 then Inl ZeroDivisionError
      else Inr (case x of
                  Finite a \<Rightarrow> fl_round (a / b)
                | PosInf \<Rightarrow> if 0 < b then PosInf else NegInf
                | NegInf \<Rightarrow> if 0 < b then NegInf else PosInf
                | NaN \<Rightarrow> NaN))"
| "fl_div x NaN = Inr NaN"
| "fl_div (Finite a) y = Inr (Finite 0)"
| "fl_div x y = Inr NaN"

subsection \<open>Mixed \<^verbatim>\<open>int\<close> and \<^verbatim>\<open>float\<close> arithmetic\<close>

text \<open>
  An \<^verbatim>\<open>int\<close> operand of a float operation is converted first; the conversion
  rounds, and raises \<^verbatim>\<open>OverflowError\<close> when the integer is too large.
\<close>

definition fl_of_int :: "int \<Rightarrow> py_error + pyfloat" where
  "fl_of_int n = (let x = fl_round (of_int n) in if is_finite x then Inr x else Inl OverflowError)"

definition fl_mul_fi :: "pyfloat \<Rightarrow> int \<Rightarrow> py_error + pyfloat" where
  "fl_mul_fi x n = ebind (fl_of_int n) (\<lambda>y. Inr (fl_mul x y))"

definition fl_mul_if :: "int \<Rightarrow> pyfloat \<Rightarrow> py_error + pyfloat" where
  "fl_mul_if n y = ebind (fl_of_int n) (\<lambda>x. Inr (fl_mul x y))"

definition fl_div_fi :: "pyfloat \<Rightarrow> int \<Rightarrow> py_error + pyfloat" where
  "fl_div_fi x n = ebind (fl_of_int n) (\<lambda>y. fl_div x y)"

text \<open>
  \<^verbatim>\<open>a / b\<close> on two ints: the correctly rounded quotient, \<^verbatim>\<open>OverflowError\<close>
  when it is too large for a float.
\<close>

definition int_truediv :: "int \<Rightarrow> int \<Rightarrow> py_error + pyfloat" where
  "int_truediv a b =
     (if b = 0 then Inl ZeroDivisionError
      else let x = fl_round (of_int a / of_int b) in
        if is_finite x then Inr x else Inl OverflowError)"

text \<open>A number stored in a dict of the calculator is an int or a float.\<close>

datatype pynum = PyInt int | PyFloat pyfloat

fun py_add :: "pynum \<Rightarrow> pynum \<Rightarrow> py_error + pynum" where
  "py_add (PyInt a) (PyInt b) = Inr (PyInt (a + b))"
| "py_add (PyInt a) (PyFloat y) = ebind (fl_of_int a) (\<lambda>x. Inr (PyFloat (fl_add x y)))"
| "py_add (PyFloat x) (PyInt b) = ebind (fl_of_int b) (\<lambda>y. Inr (PyFloat (fl_add x y)))"
| "py_add (PyFloat x) (PyFloat y) = Inr (PyFloat (fl_add x y))"

fun py_mul :: "pynum \<Rightarrow> pynum \<Rightarrow> py_error + pynum" where
  "py_mul (PyInt a) (PyInt b) = Inr (PyInt (a * b))"
| "py_mul (PyInt a) (PyFloat y) = ebind (fl_of_int a) (\<lambda>x. Inr (PyFloat (fl_mul x y)))"
| "py_mul (PyFloat x) (PyInt b) = ebind (fl_of_int b) (\<lambda>y. Inr (PyFloat (fl_mul x y)))"
| "py_mul (PyFloat x) (PyFloat y) = Inr (PyFloat (fl_mul x y))"

text \<open>
  The builtin \<^verbatim>\<open>sum\<close>: the items are added from left to right, starting from
  the int \<open>0\<close>.
\<close>

fun sum_from :: "pynum \<Rightarrow> pynum list \<Rightarrow> py_error + pynum" where
  "sum_from acc [] = Inr acc"
| "sum_from acc (x # xs) = ebind (py_add acc x) (\<lambda>acc'. sum_from acc' xs)"

definition py_sum :: "pynum list \<Rightarrow> py_error + pynum" where
  "py_sum xs = sum_from (PyInt 0) xs"

subsection \<open>Dicts with string keys\<close>

text \<open>
  A dict is the list of its items in insertion order.  \<open>subscript d k\<close> is
  \<^verbatim>\<open>d[k]\<close>, which raises \<^verbatim>\<open>KeyError\<close>; \<open>dict_set d k v\<close> is \<^verbatim>\<open>d[k] = v\<close>, which
  keeps the place of a key already present.
\<close>

definition subscript :: "(string \<times> 'v) list \<Rightarrow> string \<Rightarrow> py_error + 'v" where
  "subscript d k = (case map_of d k of None \<Rightarrow> Inl (KeyError k) | Some v \<Rightarrow> Inr v)"

fun dict_set :: "(string \<times> 'v) list \<Rightarrow> string \<Rightarrow> 'v \<Rightarrow> (string \<times> 'v) list" where
  "dict_set [] k v = [(k, v)]"
| "dict_set ((k', v') # d) k v = (if k' = k then (k, v) # d else (k', v') # dict_set d k v)"

section \<open>The calculator\<close>

text \<open>\<^verbatim>\<open>self.pricing\<close>; a decimal literal denotes the nearest float.\<close>

definition pricing :: "(string \<times> (string \<times> pyfloat) list) list" where
  "pricing =
    [(''gke'',
        [(''e2-small'', fl_round (2427 / 100)),
         (''e2-medium'', fl_round (4855 / 100)),
         (''e2-standard-2'', fl_round (9711 / 100)),
         (''e2-standard-4'', fl_round (19422 / 100))]),
     (''cloud_sql'',
        [(''db-f1-micro'', fl_round 15),
         (''db-g1-small'', fl_round 50),
         (''db-n1-standard-1'', fl_round 95),
         (''db-n1-standard-2'', fl_round 190),
         (''db-n1-standard-4'', fl_round 380)]),
     (''cloud_run'',
        [(''cpu_time'', fl_round (24 / 1000000)),
         (''memory_time'', fl_round (25 / 10000000)),
         (''requests'', fl_round (40 / 100)),
         (''min_instances'', fl_round (876 / 100))]),
     (''storage'',
        [(''persistent_ssd'', fl_round (17 / 100)),
         (''persistent_standard'', fl_round (4 / 100)),
         (''cloud_sql_ssd'', fl_round (17 / 100))]),
     (''network'',
        [(''load_balancer'', fl_round 18),
         (''egress_internet'', fl_round (12 / 100))]),
     (''operations'',
        [(''monitoring_basic'', fl_round 5),
         (''monitoring_premium'', fl_round 25),
         (''logging'', fl_round (50 / 100)),
         (''secret_manager'', fl_round (6 / 100))])]"

text \<open>\<open>price c k\<close> is \<^verbatim>\<open>self.pricing[c][k]\<close>.\<close>

definition price :: "string \<Rightarrow> string \<Rightarrow> py_error + pyfloat" where
  "price category sku = ebind (subscript pricing category) (\<lambda>table. subscript table sku)"

definition calculate_gke_cost :: "string \<Rightarrow> int \<Rightarrow> bool \<Rightarrow> py_error + pyfloat" where
  "calculate_gke_cost machine_type node_count preemptible =
     ebind (price ''gke'' machine_type) (\<lambda>unit_price.
     ebind (fl_mul_fi unit_price node_count) (\<lambda>base_cost.
     Inr (if preemptible then fl_mul base_cost (fl_round (2 / 10)) else base_cost)))"

definition calculate_cloud_sql_cost :: "string \<Rightarrow> int \<Rightarrow> bool \<Rightarrow> int \<Rightarrow> py_error + pyfloat" where
  "calculate_cloud_sql_cost machine_type storage_gb ha backup_storage =
     ebind (price ''cloud_sql'' machine_type) (\<lambda>unit_price.
     ebind (if ha then fl_mul_fi unit_price 2 else Inr unit_price) (\<lambda>compute_cost.
     ebind (price ''storage'' ''cloud_sql_ssd'') (\<lambda>ssd.
     ebind (fl_mul_if storage_gb ssd) (\<lambda>storage_cost.
     ebind (price ''storage'' ''cloud_sql_ssd'') (\<lambda>ssd'.
     ebind (fl_mul_if backup_storage ssd') (\<lambda>backup_base.
     let backup_cost = fl_mul backup_base (fl_round (8 / 100)) in
     Inr (fl_add (fl_add compute_cost storage_cost) backup_cost)))))))"

definition calculate_cloud_run_cost :: "int \<Rightarrow> int \<Rightarrow> int \<Rightarrow> int \<Rightarrow> py_error + pyfloat" where
  "calculate_cloud_run_cost requests_per_month avg_cpu_time_ms avg_memory_mb min_instances =
     ebind (int_truediv requests_per_month 1000000) (\<lambda>millions.
     ebind (price ''cloud_run'' ''requests'') (\<lambda>request_price.
     let request_cost = fl_mul millions request_price in
     ebind (int_truediv (requests_per_month * avg_cpu_time_ms) 1000) (\<lambda>cpu_seconds.
     ebind (fl_mul_fi cpu_seconds 1) (\<lambda>cpu_vcpu_seconds.
     ebind (price ''cloud_run'' ''cpu_time'') (\<lambda>cpu_price.
     let cpu_cost = fl_mul cpu_vcpu_seconds cpu_price in
     ebind (fl_mul_fi cpu_seconds avg_memory_mb) (\<lambda>mb_seconds.
     ebind (fl_div_fi mb_seconds 1024) (\<lambda>memory_gb_seconds.
     ebind (price ''cloud_run'' ''memory_time'') (\<lambda>memory_price.
     let memory_cost = fl_mul memory_gb_seconds memory_price in
     ebind (price ''cloud_run'' ''min_instances'') (\<lambda>instance_price.
     ebind (fl_mul_if min_instances instance_price) (\<lambda>min_instance_cost.
     Inr (fl_add (fl_add (fl_add request_cost cpu_cost) memory_cost) min_instance_cost)))))))))))"

subsection \<open>Scenarios\<close>

record usage =
  u_requests_per_month :: int
  u_avg_cpu_time_ms :: int
  u_avg_memory_mb :: int
  u_storage_gb :: int
  u_egress_gb :: int

record components =
  c_gke_nodes :: "string \<times> int \<times> bool"
  c_cloud_sql :: "string \<times> int \<times> bool \<times> int"
  c_monitoring :: string

record config =
  cfg_description :: string
  cfg_usage :: usage
  cfg_components :: components

record scenario_result =
  r_scenario :: string
  r_description :: string
  monthly_cost :: pynum
  annual_cost :: pynum
  cost_breakdown :: "(string \<times> pynum) list"
  usage_stats :: usage

definition scenarios :: "(string \<times> config) list" where
  "scenarios =
    [(''demo'',
        \<lparr>cfg_description = ''Demo environment for demonstrations'',
         cfg_usage = \<lparr>u_requests_per_month = 10000, u_avg_cpu_time_ms = 200,
                      u_avg_memory_mb = 256, u_storage_gb = 50, u_egress_gb = 10\<rparr>,
         cfg_components = \<lparr>c_gke_nodes = (''e2-small'', 1, True),
                           c_cloud_sql = (''db-f1-micro'', 20, False, 5),
                           c_monitoring = ''basic''\<rparr>\<rparr>),
     (''staging'',
        \<lparr>cfg_description = ''Staging environment for testing'',
         cfg_usage = \<lparr>u_requests_per_month = 50000, u_avg_cpu_time_ms = 300,
                      u_avg_memory_mb = 512, u_storage_gb = 100, u_egress_gb = 25\<rparr>,
         cfg_components = \<lparr>c_gke_nodes = (''e2-medium'', 2, False),
                           c_cloud_sql = (''db-n1-standard-1'', 50, False, 15),
                           c_monitoring = ''basic''\<rparr>\<rparr>),
     (''production'',
        \<lparr>cfg_description = ''Production environment'',
         cfg_usage = \<lparr>u_requests_per_month = 200000, u_avg_cpu_time_ms = 500,
                      u_avg_memory_mb = 1024, u_storage_gb = 200, u_egress_gb = 100\<rparr>,
         cfg_components = \<lparr>c_gke_nodes = (''e2-standard-2'', 3, False),
                           c_cloud_sql = (''db-n1-standard-2'', 100, True, 50),
                           c_monitoring = ''premium''\<rparr>\<rparr>),
     (''enterprise'',
        \<lparr>cfg_description = ''Enterprise multi-region deployment'',
         cfg_usage = \<lparr>u_requests_per_month = 1000000, u_avg_cpu_time_ms = 750,
                      u_avg_memory_mb = 2048, u_storage_gb = 500, u_egress_gb = 500\<rparr>,
         cfg_components = \<lparr>c_gke_nodes = (''e2-standard-4'', 6, False),
                           c_cloud_sql = (''db-n1-standard-4'', 200, True, 100),
                           c_monitoring = ''premium''\<rparr>\<rparr>)]"

text \<open>
  The body of \<^verbatim>\<open>calculate_scenario_cost\<close> after the lookup of the scenario:
  the line items are stored into \<^verbatim>\<open>costs\<close> one after the other, then summed.
\<close>

definition scenario_costs :: "string \<Rightarrow> config \<Rightarrow> py_error + (string \<times> pynum) list" where
  "scenario_costs scenario cfg =
     (let costs = [] in
      case c_gke_nodes (cfg_components cfg) of (machine_type, node_count, preemptible) \<Rightarrow>
      ebind (calculate_gke_cost machine_type node_count preemptible) (\<lambda>gke.
      let costs = dict_set costs ''gke'' (PyFloat gke) in
      case c_cloud_sql (cfg_components cfg) of (sql_machine, storage, ha, backup) \<Rightarrow>
      ebind (calculate_cloud_sql_cost sql_machine storage ha backup) (\<lambda>cloud_sql.
      let costs = dict_set costs ''cloud_sql'' (PyFloat cloud_sql);
          usage = cfg_usage cfg in
      ebind (calculate_cloud_run_cost
               (u_requests_per_month usage)
               (u_avg_cpu_time_ms usage)
               (u_avg_memory_mb usage)
               (if scenario = ''production'' then 1 else 0)) (\<lambda>web.
      let costs = dict_set costs ''cloud_run_web'' (PyFloat web) in
      ebind (calculate_cloud_run_cost
               (u_requests_per_month usage div 10)
               (u_avg_cpu_time_ms usage * 2)
               (u_avg_memory_mb usage * 2)
               (if scenario \<in> set [''production'', ''enterprise''] then 1 else 0)) (\<lambda>worker.
      let costs = dict_set costs ''cloud_run_worker'' (PyFloat worker) in
      ebind (price ''storage'' ''persistent_ssd'') (\<lambda>ssd.
      ebind (fl_mul_if (u_storage_gb usage) ssd) (\<lambda>storage_cost.
      let costs = dict_set costs ''storage'' (PyFloat storage_cost) in
      ebind (price ''network'' ''load_balancer'') (\<lambda>load_balancer.
      let costs = dict_set costs ''load_balancer'' (PyFloat load_balancer) in
      ebind (price ''network'' ''egress_internet'') (\<lambda>egress_price.
      ebind (fl_mul_if (u_egress_gb usage) egress_price) (\<lambda>egress.
      let costs = dict_set costs ''egress'' (PyFloat egress);
          monitoring_type = c_monitoring (cfg_components cfg) in
      ebind (if monitoring_type = ''basic''
             then price ''operations'' ''monitoring_basic''
             else price ''operations'' ''monitoring_premium'') (\<lambda>monitoring.
      let costs = dict_set costs ''monitoring'' (PyFloat monitoring);
          costs = (if scenario = ''enterprise''
                   then dict_set (dict_set costs ''security'' (PyInt 100)) ''support'' (PyInt 200)
                   else costs) in
      Inr costs)))))))))))"

definition calculate_scenario_cost :: "string \<Rightarrow> py_error + scenario_result" where
  "calculate_scenario_cost scenario =
     (case map_of scenarios scenario of
        None \<Rightarrow> Inl (ValueError (''Unknown scenario: '' @ scenario))
      | Some cfg \<Rightarrow>
          ebind (scenario_costs scenario cfg) (\<lambda>costs.
          ebind (py_sum (map snd costs)) (\<lambda>total_cost.
          ebind (py_mul total_cost (PyInt 12)) (\<lambda>annual.
          Inr \<lparr>r_scenario = scenario,
               r_description = cfg_description cfg,
               monthly_cost = total_cost,
               annual_cost = annual,
               cost_breakdown = costs,
               usage_stats = cfg_usage cfg\<rparr>))))"

text \<open>
  \<^verbatim>\<open>compare_scenarios\<close>: the loop stores one result per name into \<^verbatim>\<open>results\<close>
  and stops at the first name that raises.
\<close>

fun compare_loop ::
  "(string \<times> scenario_result) list \<Rightarrow> string list \<Rightarrow> py_error + (string \<times> scenario_result) list" where
  "compare_loop results [] = Inr results"
| "compare_loop results (scenario # rest) =
     ebind (calculate_scenario_cost scenario) (\<lambda>r. compare_loop (dict_set results scenario r) rest)"

definition compare_scenarios :: "string list \<Rightarrow> py_error + (string \<times> scenario_result) list" where
  "compare_scenarios names = compare_loop [] names"

text \<open>A number is finite when it is an int or a finite float.\<close>

fun finite_num :: "pynum \<Rightarrow> bool" where
  "finite_num (PyInt n) = True"
| "finite_num (PyFloat x) = is_finite x"

subsection \<open>The exact sum of a breakdown\<close>

text \<open>
  The specification of the calculator compares the monthly total with the sum
  of the line items up to a cent.  \<open>exact_sum\<close> is the sum of the items as rational numbers, without
  rounding, when every item is finite.
\<close>

fun exact_value :: "pynum \<Rightarrow> rat option" where
  "exact_value (PyInt n) = Some (of_int n)"
| "exact_value (PyFloat (Finite v)) = Some v"
| "exact_value (PyFloat x) = None"

fun exact_sum :: "pynum list \<Rightarrow> rat option" where
  "exact_sum [] = Some 0"
| "exact_sum (x # xs) =
     (case exact_value x of
        None \<Rightarrow> None
      | Some v \<Rightarrow> (case exact_sum xs of None \<Rightarrow> None | Some s \<Rightarrow> Some (v + s)))"

definition within_cent :: "pynum \<Rightarrow> pynum list \<Rightarrow> bool" where
  "within_cent amount items =
     (case exact_value amount of
        None \<Rightarrow> False
      | Some t \<Rightarrow> (case exact_sum items of None \<Rightarrow> False | Some s \<Rightarrow> \<bar>t - s\<bar> < 1 / 100))"

section \<open>Properties of rounding\<close>

lemma ebind_Inr [simp]: "ebind (Inr v) f = f v"
  by (simp add: ebind_def)

lemma ebind_Inl [simp]: "ebind (Inl e) f = Inl e"
  by (simp add: ebind_def)

lemma ebind_eq_Inr:
  "(ebind m f = Inr r) = (\<exists>v. m = Inr v \<and> f v = Inr r)"
  by (cases m) simp_all

lemma ebind_return [simp]: "ebind m Inr = m"
  by (cases m) simp_all

text \<open>
\<open>ilog2\<close> is the binary logarithm rounded down.
\<close>

lemma floor_pow_bounds:
  fixes r :: rat assumes "1 \<le> r"
  shows "2 ^ nat (bitlen \<lfloor>r\<rfloor> - 1) \<le> r" and "r < 2 ^ nat (bitlen \<lfloor>r\<rfloor> - 1 + 1)"
proof -
  let ?n = "\<lfloor>r\<rfloor>"
  have n: "0 < ?n" using assms by simp
  from bitlen_bounds[OF n] have lo: "2 ^ nat (bitlen ?n - 1) \<le> ?n" and hi: "?n < 2 ^ nat (bitlen ?n)" by auto
  have "(of_int (2 ^ nat (bitlen ?n - 1)) :: rat) \<le> of_int ?n" using lo by (simp only: of_int_le_iff)
  also have "\<dots> \<le> r" by simp
  finally show "2 ^ nat (bitlen \<lfloor>r\<rfloor> - 1) \<le> r" by simp
  have "?n + 1 \<le> 2 ^ nat (bitlen ?n)" using hi by simp
  then have "(of_int (?n + 1) :: rat) \<le> of_int (2 ^ nat (bitlen ?n))" by (simp only: of_int_le_iff)
  moreover have "r < of_int (?n + 1)" by linarith
  ultimately have "r < of_int (2 ^ nat (bitlen ?n))" by linarith
  then show "r < 2 ^ nat (bitlen \<lfloor>r\<rfloor> - 1 + 1)" by simp
qed

lemma bitlen_pos: "0 < n \<Longrightarrow> 0 \<le> bitlen n - 1"
  using bitlen_eq_zero_iff[of n] bitlen_nonneg[of n] by linarith

lemma pow2_less_iff: "((2::rat) powi a < 2 powi b) = (a < b)"
proof
  assume "(2::rat) powi a < 2 powi b"
  show "a < b"
  proof (rule ccontr)
    assume "\<not> a < b"
    then have "b \<le> a" by simp
    then have "(2::rat) powi b \<le> 2 powi a" by (intro power_int_increasing) simp_all
    with \<open>(2::rat) powi a < 2 powi b\<close> show False by simp
  qed
next
  assume "a < b" then show "(2::rat) powi a < 2 powi b" by (intro power_int_strict_increasing) simp_all
qed

lemma pow2_le_iff: "((2::rat) powi a \<le> 2 powi b) = (a \<le> b)"
  using pow2_less_iff[of b a] by (simp add: not_less[symmetric])

lemma ilog2_bounds:
  assumes "0 < q"
  shows "2 powi (ilog2 q) \<le> q \<and> q < 2 powi (ilog2 q + 1)"
proof (cases "1 \<le> q")
  case True
  define k where "k = bitlen \<lfloor>q\<rfloor> - 1"
  have fl: "0 < \<lfloor>q\<rfloor>" using True by simp
  have k0: "0 \<le> k" using bitlen_pos[OF fl] by (simp add: k_def)
  have il: "ilog2 q = k" using True by (simp add: ilog2_def k_def)
  from floor_pow_bounds[OF True] have "2 ^ nat k \<le> q" "q < 2 ^ nat (k + 1)" by (simp_all add: k_def)
  then show ?thesis using k0 by (simp add: il power_int_nonneg_exp)
next
  case False
  define r where "r = 1 / q"
  define m where "m = bitlen \<lfloor>r\<rfloor> - 1"
  have r1: "1 \<le> r" using False assms by (simp add: r_def)
  have q: "q = 1 / r" by (simp add: r_def)
  have r0: "0 < r" using r1 by linarith
  have fl: "0 < \<lfloor>r\<rfloor>" using r1 by simp
  have m0: "0 \<le> m" using bitlen_pos[OF fl] by (simp add: m_def)
  from floor_pow_bounds[OF r1] have lo: "2 ^ nat m \<le> r" and hi: "r < 2 ^ nat (m + 1)" by (simp_all add: m_def)
  have il0: "ilog2 q = (if r = 2 ^ nat m then - m else - m - 1)"
    unfolding ilog2_def Let_def r_def m_def using False by (simp only: if_False)
  show ?thesis
  proof (cases "r = 2 ^ nat m")
    case True
    have il: "ilog2 q = - m" using il0 True by simp
    have "2 powi (- m) = (1 / 2 ^ nat m :: rat)" using m0 by (simp add: power_int_def field_simps)
    then have e1: "2 powi (- m) = q" using True q by simp
    have "(2::rat) powi (- m + 1) = 2 powi (- m) * 2" by (rule power_int_add_1) simp
    then have "q < 2 powi (- m + 1)" using e1 assms by simp
    then show ?thesis using e1 by (simp add: il)
  next
    case neq: False
    have il: "ilog2 q = - m - 1" using il0 neq by simp
    have lo': "2 ^ nat m < r" using lo neq by simp
    have p1: "2 powi (- m - 1) = (1 / 2 ^ nat (m + 1) :: rat)" using m0 by (simp add: power_int_def field_simps nat_add_distrib)
    have p2: "2 powi (- m) = (1 / 2 ^ nat m :: rat)" using m0 by (simp add: power_int_def field_simps)
    have a: "1 / 2 ^ nat (m + 1) < 1 / r" using hi r0 by (simp add: frac_less2)
    have b: "1 / r < 1 / 2 ^ nat m" using lo' r0 by (simp add: frac_less2)
    have c: "2 powi (- m - 1) < q" using a p1 q by simp
    have d: "q < 2 powi (- m)" using b p2 q by simp
    have "ilog2 q + 1 = - m" using il by simp
    then show ?thesis using c d il by simp
  qed
qed

lemma ilog2_unique:
  assumes "0 < q" "2 powi k \<le> q" "q < 2 powi (k + 1)"
  shows "ilog2 q = k"
proof -
  from ilog2_bounds[OF assms(1)] have lo: "2 powi (ilog2 q) \<le> q" and hi: "q < 2 powi (ilog2 q + 1)" by auto
  have "(2::rat) powi k < 2 powi (ilog2 q + 1)" using assms(2) hi by linarith
  then have a: "k < ilog2 q + 1" by (simp add: pow2_less_iff)
  have "(2::rat) powi (ilog2 q) < 2 powi (k + 1)" using assms(3) lo by linarith
  then have b: "ilog2 q < k + 1" by (simp add: pow2_less_iff)
  show ?thesis using a b by linarith
qed

lemma round_half_even_bounds: "\<lfloor>x\<rfloor> \<le> round_half_even x \<and> round_half_even x \<le> \<lceil>x\<rceil>"
proof -
  have "x - of_int \<lfloor>x\<rfloor> \<noteq> 0 \<Longrightarrow> \<lceil>x\<rceil> = \<lfloor>x\<rfloor> + 1"
    by (metis ceiling_altdef eq_iff_diff_eq_0 of_int_floor_cancel)
  moreover have "\<lfloor>x\<rfloor> \<le> \<lceil>x\<rceil>" by (simp add: floor_le_ceiling)
  ultimately show ?thesis
    by (auto simp: round_half_even_def Let_def)
qed

lemma round_half_even_of_int [simp]: "round_half_even (of_int n) = n"
  by (simp add: round_half_even_def)

lemma round_half_even_abs_le:
  assumes "\<bar>x\<bar> \<le> of_int M"
  shows "\<bar>round_half_even x\<bar> \<le> M"
proof -
  have "x \<le> of_int M" "- of_int M \<le> x" using assms by linarith+
  then have "\<lceil>x\<rceil> \<le> M" "- M \<le> \<lfloor>x\<rfloor>" by (simp_all add: ceiling_le_iff le_floor_iff)
  then show ?thesis using round_half_even_bounds[of x] by linarith
qed


lemma scaled_abs_le:
  assumes "q \<noteq> 0" "ilog2 \<bar>q\<bar> - 52 \<le> e"
  shows "\<bar>q / 2 powi e\<bar> \<le> of_int (2 ^ 53)"
proof -
  have q0: "0 < \<bar>q\<bar>" using assms by simp
  from ilog2_bounds[OF q0] have hi: "\<bar>q\<bar> < 2 powi (ilog2 \<bar>q\<bar> + 1)" by simp
  have "(2::rat) powi (ilog2 \<bar>q\<bar> + 1) \<le> 2 powi (e + 53)" using assms(2) by (simp add: pow2_le_iff)
  also have "\<dots> = 2 powi e * 2 ^ 53" by (simp add: power_int_add)
  finally have "\<bar>q\<bar> < 2 powi e * 2 ^ 53" using hi by linarith
  then have "\<bar>q\<bar> / 2 powi e < 2 ^ 53" by (simp add: field_simps)
  then show ?thesis by (simp add: abs_divide)
qed

lemma fl_round_form:
  assumes "q \<noteq> 0"
  shows "\<exists>N e. \<bar>N\<bar> \<le> 2 ^ 53 \<and> - 1074 \<le> e \<and> ilog2 \<bar>q\<bar> - 52 \<le> e \<and> e \<le> max (ilog2 \<bar>q\<bar> - 52) (- 1074) \<and>
     N = round_half_even (q / 2 powi e) \<and>
     fl_round q = (if 2 ^ 1024 \<le> (of_int N * 2 powi e :: rat) then PosInf
                   else if (of_int N * 2 powi e :: rat) \<le> - (2 ^ 1024) then NegInf
                   else Finite (of_int N * 2 powi e))"
proof -
  define e where "e = max (ilog2 \<bar>q\<bar> - 52) (- 1074)"
  define N where "N = round_half_even (q / 2 powi e)"
  have e1: "- 1074 \<le> e" and e2: "ilog2 \<bar>q\<bar> - 52 \<le> e" by (simp_all add: e_def)
  have "\<bar>N\<bar> \<le> 2 ^ 53" unfolding N_def by (rule round_half_even_abs_le, rule scaled_abs_le[OF assms e2])
  moreover have "fl_round q = (if 2 ^ 1024 \<le> (of_int N * 2 powi e :: rat) then PosInf
                   else if (of_int N * 2 powi e :: rat) \<le> - (2 ^ 1024) then NegInf
                   else Finite (of_int N * 2 powi e))"
    using assms by (simp add: fl_round_def Let_def e_def N_def)
  ultimately show ?thesis using e1 e2 N_def e_def by blast
qed

lemma fl_round_not_NaN [simp]: "fl_round q \<noteq> NaN"
  by (simp add: fl_round_def Let_def)

lemma fl_round_exact:
  assumes v: "v = of_int N * 2 powi e" and N: "\<bar>N\<bar> \<le> 2 ^ 53" and e: "- 1074 \<le> e"
    and fin: "\<bar>v\<bar> < 2 ^ 1024"
  shows "fl_round v = Finite v"
proof (cases "v = 0")
  case True
  then show ?thesis by (simp add: fl_round_def)
next
  case False
  have v0: "0 < \<bar>v\<bar>" using False by simp
  define k where "k = ilog2 \<bar>v\<bar>"
  define e' where "e' = max (k - 52) (- 1074)"
  from ilog2_bounds[OF v0] have lo: "2 powi k \<le> \<bar>v\<bar>" and hi: "\<bar>v\<bar> < 2 powi (k + 1)" by (simp_all add: k_def)
  have absv: "\<bar>v\<bar> = of_int \<bar>N\<bar> * 2 powi e" by (simp add: v abs_mult)
  have "\<exists>M. v / 2 powi e' = of_int M"
  proof (cases "e' \<le> e")
    case True
    have "v / 2 powi e' = of_int N * 2 powi (e - e')" by (simp add: v power_int_diff)
    also have "\<dots> = of_int N * 2 ^ nat (e - e')" using True by (simp add: power_int_nonneg_exp)
    also have "\<dots> = of_int (N * 2 ^ nat (e - e'))" by simp
    finally show ?thesis by blast
  next
    case gt: False
    then have e'k: "e' = k - 52" and ke: "e + 53 \<le> k" using e by (simp_all add: e'_def)
    have "(2::rat) powi (e + 53) \<le> 2 powi k" using ke by (simp add: pow2_le_iff)
    moreover have "(2::rat) powi (e + 53) = of_int (2 ^ 53) * 2 powi e" by (simp add: power_int_add)
    ultimately have "(of_int (2 ^ 53) :: rat) * 2 powi e \<le> of_int \<bar>N\<bar> * 2 powi e" using lo absv by linarith
    moreover have "(0::rat) < 2 powi e" by simp
    ultimately have "(of_int (2 ^ 53) :: rat) \<le> of_int \<bar>N\<bar>" by (simp only: mult_le_cancel_right_pos)
    then have "2 ^ 53 \<le> \<bar>N\<bar>" by (simp only: of_int_le_iff)
    then have Neq: "\<bar>N\<bar> = 2 ^ 53" using N by simp
    have "\<bar>v\<bar> = 2 powi (e + 53)" by (simp add: absv Neq power_int_add)
    then have "ilog2 \<bar>v\<bar> = e + 53" by (intro ilog2_unique) (simp_all add: pow2_less_iff)
    then have e'e: "e' = e + 1" using e'k by (simp add: k_def)
    obtain N' where N': "N = 2 * N'"
      using Neq by (cases "0 \<le> N") (auto intro: that[of "2 ^ 52"] that[of "- (2 ^ 52)"])
    have "v / 2 powi e' = of_int N'" by (simp add: v e'e N' power_int_add)
    then show ?thesis by blast
  qed
  then obtain M where M: "v / 2 powi e' = of_int M" by blast
  have scaled: "of_int M * 2 powi e' = v" using M by (simp add: field_simps)
  have "\<not> 2 ^ 1024 \<le> v" "\<not> v \<le> - (2 ^ 1024)" using fin by linarith+
  then show ?thesis using False
    by (simp add: fl_round_def Let_def k_def[symmetric] e'_def[symmetric] M scaled)
qed

lemma fl_round_idem:
  assumes "fl_round q = Finite v"
  shows "fl_round v = Finite v"
proof (cases "q = 0")
  case True
  then show ?thesis using assms by (auto simp: fl_round_def)
next
  case False
  from fl_round_form[OF False] obtain N e where
    N: "\<bar>N\<bar> \<le> 2 ^ 53" and e: "- 1074 \<le> e" and
    r: "fl_round q = (if 2 ^ 1024 \<le> (of_int N * 2 powi e :: rat) then PosInf
                   else if (of_int N * 2 powi e :: rat) \<le> - (2 ^ 1024) then NegInf
                   else Finite (of_int N * 2 powi e))" by blast
  from r assms have v: "v = of_int N * 2 powi e" and b: "\<not> 2 ^ 1024 \<le> v" "\<not> v \<le> - (2 ^ 1024)"
    by (auto split: if_splits)
  have "\<bar>v\<bar> < 2 ^ 1024" using b by linarith
  from fl_round_exact[OF v N e this] show ?thesis .
qed

lemma fl_round_finite:
  assumes "\<bar>q\<bar> < 2 ^ 1023"
  shows "is_finite (fl_round q)"
proof (cases "q = 0")
  case True
  then show ?thesis by (simp add: fl_round_def)
next
  case False
  from fl_round_form[OF False] obtain N e where
    N: "\<bar>N\<bar> \<le> 2 ^ 53" and e: "e \<le> max (ilog2 \<bar>q\<bar> - 52) (- 1074)" and
    r: "fl_round q = (if 2 ^ 1024 \<le> (of_int N * 2 powi e :: rat) then PosInf
                   else if (of_int N * 2 powi e :: rat) \<le> - (2 ^ 1024) then NegInf
                   else Finite (of_int N * 2 powi e))" by blast
  have q0: "0 < \<bar>q\<bar>" using False by simp
  from ilog2_bounds[OF q0] have "2 powi (ilog2 \<bar>q\<bar>) \<le> \<bar>q\<bar>" by simp
  then have "(2::rat) powi (ilog2 \<bar>q\<bar>) < 2 powi 1023" using assms by simp
  then have "ilog2 \<bar>q\<bar> < 1023" by (simp only: pow2_less_iff)
  then have e970: "e \<le> 970" using e by simp
  have "\<bar>of_int N * 2 powi e :: rat\<bar> = of_int \<bar>N\<bar> * 2 powi e" by (simp add: abs_mult)
  also have "\<dots> \<le> of_int (2 ^ 53) * 2 powi e" using N by (intro mult_right_mono) (simp_all only: of_int_le_iff zero_le_power_int zero_le_numeral)
  also have "\<dots> \<le> of_int (2 ^ 53) * 2 powi 970"
  proof (rule mult_left_mono)
    show "(2::rat) powi e \<le> 2 powi 970" using e970 by (simp only: pow2_le_iff)
    show "(0::rat) \<le> of_int (2 ^ 53)" by simp
  qed
  also have "\<dots> < 2 ^ 1024" by simp
  finally have "\<bar>of_int N * 2 powi e :: rat\<bar> < 2 ^ 1024" .
  then have "\<not> 2 ^ 1024 \<le> (of_int N * 2 powi e :: rat)" "\<not> (of_int N * 2 powi e :: rat) \<le> - (2 ^ 1024)" by linarith+
  then show ?thesis using r by simp
qed

text \<open>
  A rounding is settled by naming the exponent and the integer significand:
  the side conditions are comparisons of numerals.
\<close>

lemma round_half_even_eqI:
  assumes "\<bar>x - of_int n\<bar> < 1 / 2 \<or> (\<bar>x - of_int n\<bar> = 1 / 2 \<and> even n)"
  shows "round_half_even x = n"
proof -
  consider (pos) "0 \<le> x - of_int n" "x - of_int n < 1 / 2"
    | (neg) "x - of_int n < 0" "- (1 / 2) < x - of_int n"
    | (up) "x - of_int n = 1 / 2" "even n"
    | (down) "x - of_int n = - (1 / 2)" "even n"
    using assms by (cases "0 \<le> x - of_int n") (auto simp: abs_if)
  then show ?thesis
  proof cases
    case pos
    then have "\<lfloor>x\<rfloor> = n" by (intro floor_unique) linarith+
    then show ?thesis using pos by (simp add: round_half_even_def Let_def)
  next
    case neg
    then have "of_int (n - 1) \<le> x \<and> x < of_int (n - 1) + 1" by (simp only: of_int_diff of_int_1) linarith
    then have "\<lfloor>x\<rfloor> = n - 1" by (intro floor_unique) simp_all
    then show ?thesis using neg by (simp add: round_half_even_def Let_def)
  next
    case up
    then have "\<lfloor>x\<rfloor> = n" by (intro floor_unique) linarith+
    then show ?thesis using up by (simp add: round_half_even_def Let_def)
  next
    case down
    then have "of_int (n - 1) \<le> x \<and> x < of_int (n - 1) + 1" by (simp only: of_int_diff of_int_1) linarith
    then have "\<lfloor>x\<rfloor> = n - 1" by (intro floor_unique) simp_all
    then show ?thesis using down by (simp add: round_half_even_def Let_def)
  qed
qed

lemma fl_round_cert:
  assumes q: "q \<noteq> 0" and lo: "2 powi k \<le> \<bar>q\<bar>" and hi: "\<bar>q\<bar> < 2 powi (k + 1)"
    and k1: "- 1022 \<le> k" and k2: "k < 1023"
    and n': "\<bar>q / 2 powi (k - 52) - of_int n\<bar> < 1 / 2 \<or>
             (\<bar>q / 2 powi (k - 52) - of_int n\<bar> = 1 / 2 \<and> even n)"
    and v: "v = of_int n * 2 powi (k - 52)"
  shows "fl_round q = Finite v"
proof -
  have n: "round_half_even (q / 2 powi (k - 52)) = n" by (rule round_half_even_eqI[OF n'])
  have q0: "0 < \<bar>q\<bar>" using q by simp
  have il: "ilog2 \<bar>q\<bar> = k" by (rule ilog2_unique[OF q0 lo hi])
  have e: "max (ilog2 \<bar>q\<bar> - 52) (- 1074) = k - 52" using k1 by (simp add: il)
  have "\<bar>q / 2 powi (k - 52)\<bar> \<le> of_int (2 ^ 53)" by (rule scaled_abs_le[OF q]) (simp add: il)
  then have N: "\<bar>n\<bar> \<le> 2 ^ 53" unfolding n[symmetric] by (rule round_half_even_abs_le)
  have "\<bar>v\<bar> = of_int \<bar>n\<bar> * 2 powi (k - 52)" by (simp add: v abs_mult)
  also have "\<dots> \<le> of_int (2 ^ 53) * 2 powi (k - 52)"
    using N by (intro mult_right_mono) (simp_all only: of_int_le_iff zero_le_power_int zero_le_numeral)
  also have "\<dots> \<le> of_int (2 ^ 53) * 2 powi 970"
  proof (rule mult_left_mono)
    show "(2::rat) powi (k - 52) \<le> 2 powi 970" using k2 by (simp only: pow2_le_iff)
    show "(0::rat) \<le> of_int (2 ^ 53)" by simp
  qed
  also have "\<dots> < 2 ^ 1024" by simp
  finally have "\<bar>v\<bar> < 2 ^ 1024" .
  then have "\<not> 2 ^ 1024 \<le> v" "\<not> v \<le> - (2 ^ 1024)" by linarith+
  then show ?thesis using q by (simp add: fl_round_def Let_def e n v)
qed


text \<open>
  Two familiar facts of binary64 arithmetic, as a check of \<open>fl_round\<close>:
  \<^verbatim>\<open>0.1 + 0.2\<close> is not the float \<^verbatim>\<open>0.3\<close>, and an integer halfway between two
  floats rounds to the one with the even significand.
\<close>

lemma tenth: "fl_round (1 / 10) = Finite (3602879701896397 / 36028797018963968)"
  by (rule fl_round_cert[where k = "- 4" and n = 7205759403792794], simp_all)

lemma two_tenths: "fl_round (2 / 10) = Finite (3602879701896397 / 18014398509481984)"
  by (rule fl_round_cert[where k = "- 3" and n = 7205759403792794], simp_all)

lemma three_tenths: "fl_round (3 / 10) = Finite (5404319552844595 / 18014398509481984)"
  by (rule fl_round_cert[where k = "- 2" and n = 5404319552844595], simp_all)

lemma tenth_plus_two_tenths: "fl_add (Finite (3602879701896397 / 36028797018963968)) (Finite (3602879701896397 / 18014398509481984)) = Finite (1351079888211149 / 4503599627370496)"
  by (simp only: fl_add.simps) (rule fl_round_cert[where k = "- 2" and n = 5404319552844596], simp_all)

lemma sum_of_tenths_is_not_three_tenths:
  "fl_add (Finite (3602879701896397 / 36028797018963968)) (Finite (3602879701896397 / 18014398509481984)) \<noteq> Finite (5404319552844595 / 18014398509481984)"
  by (simp only: tenth_plus_two_tenths) simp

lemma tie_to_even_down: "fl_round (2 ^ 53 + 1) = Finite (2 ^ 53)"
  by (rule fl_round_cert[where k = 53 and n = 4503599627370496], simp_all)

lemma tie_to_even_up: "fl_round (2 ^ 53 + 3) = Finite (2 ^ 53 + 4)"
  by (rule fl_round_cert[where k = 53 and n = 4503599627370498], simp_all)

text \<open>
  Numbers that are floats already are not changed by rounding; rounding does
  not overflow below \<open>2\<^sup>1\<^sup>0\<^sup>2\<^sup>3\<close>, and \<open>2\<^sup>1\<^sup>0\<^sup>2\<^sup>4\<close> is too large for a float.
\<close>

lemma fl_round_0 [simp]: "fl_round 0 = Finite 0"
  by (simp add: fl_round_def)

lemma fl_of_int_small:
  assumes "\<bar>n\<bar> \<le> 2 ^ 53"
  shows "fl_of_int n = Inr (Finite (of_int n))"
proof -
  have "(of_int \<bar>n\<bar> :: rat) \<le> of_int (2 ^ 53)" using assms by (simp only: of_int_le_iff)
  then have fin: "\<bar>of_int n :: rat\<bar> < 2 ^ 1024" by simp
  have "fl_round (of_int n) = Finite (of_int n)"
  proof (rule fl_round_exact[where N = n and e = 0])
    show "(of_int n :: rat) = of_int n * 2 powi 0" by simp
    show "\<bar>n\<bar> \<le> 2 ^ 53" by (rule assms)
    show "- 1074 \<le> (0::int)" by simp
    show "\<bar>of_int n :: rat\<bar> < 2 ^ 1024" by (rule fin)
  qed
  then show ?thesis by (simp add: fl_of_int_def)
qed

lemma fl_round_small_int:
  assumes "\<bar>n\<bar> \<le> 2 ^ 53"
  shows "fl_round (of_int n) = Finite (of_int n)"
  using fl_of_int_small[OF assms] by (auto simp: fl_of_int_def Let_def split: if_splits)

lemma fl_of_int_finite: "fl_of_int n = Inr x \<Longrightarrow> is_finite x"
  by (auto simp: fl_of_int_def Let_def split: if_splits)

lemma int_truediv_ok:
  assumes "b \<noteq> 0" "\<bar>of_int a / of_int b :: rat\<bar> < 2 ^ 1023"
  shows "int_truediv a b = Inr (fl_round (of_int a / of_int b))"
  using assms fl_round_finite[OF assms(2)] by (simp add: int_truediv_def)

lemma fl_mul_zero_left: "is_finite y \<Longrightarrow> fl_mul (Finite 0) y = Finite 0"
  by (cases y) simp_all

lemma fl_add_zero_round: "fl_add (Finite 0) (fl_round q) = fl_round q"
proof (cases "fl_round q")
  case (Finite v)
  then show ?thesis using fl_round_idem[OF Finite] by simp
qed simp_all

lemma fl_add_zero_mul: "is_finite x \<Longrightarrow> is_finite y \<Longrightarrow> fl_add (Finite 0) (fl_mul x y) = fl_mul x y"
  by (cases x; cases y) (simp_all add: fl_add_zero_round)

lemma ilog2_2_1024: "ilog2 \<bar>2 ^ 1024\<bar> = 1024"
  by (rule ilog2_unique) simp_all

lemma fl_round_2_1024: "fl_round (2 ^ 1024) = PosInf"
proof -
  have r: "round_half_even 4503599627370496 = 4503599627370496"
    using round_half_even_of_int[of 4503599627370496] by simp
  show ?thesis
    unfolding fl_round_def Let_def ilog2_2_1024 by (simp add: r)
qed

lemma fl_of_int_2_1024: "fl_of_int (2 ^ 1024) = Inl OverflowError"
  using fl_round_2_1024 by (simp add: fl_of_int_def)

lemma fl_of_int_0: "fl_of_int 0 = Inr (Finite 0)"
  using fl_of_int_small[of 0] by simp

lemma fl_of_int_args:
  "fl_of_int 1 = Inr (Finite 1)" "fl_of_int 20 = Inr (Finite 20)" "fl_of_int 5 = Inr (Finite 5)"
  using fl_of_int_small[of 1] fl_of_int_small[of 20] fl_of_int_small[of 5] by simp_all

lemma fl_of_int_2: "fl_of_int 2 = Inr (Finite 2)"
  using fl_of_int_small[of 2] by simp

lemma fl_of_int_12: "fl_of_int 12 = Inr (Finite 12)"
  using fl_of_int_small[of 12] by simp

lemma sql_prices:
  "fl_round 15 = Finite 15" "fl_round 50 = Finite 50" "fl_round 95 = Finite 95"
  "fl_round 190 = Finite 190" "fl_round 380 = Finite 380"
  using fl_round_small_int[of 15] fl_round_small_int[of 50] fl_round_small_int[of 95]
    fl_round_small_int[of 190] fl_round_small_int[of 380] by simp_all

lemma doubled_prices:
  "fl_round 30 = Finite 30" "fl_round 100 = Finite 100"
  "fl_round 760 = Finite 760"
  using fl_round_small_int[of 30] fl_round_small_int[of 100] fl_round_small_int[of 760] by simp_all

subsection \<open>The roundings of the four scenarios\<close>

text \<open>
  Every rounding that the four scenarios go through, each with its exponent
  and significand: the decimal literals of the price table, the conversions of
  the int arguments, the products, quotients and sums.  They give the value of
  every call of a cost function, of every breakdown and of its sum.
\<close>

lemma lit_1: "fl_round (2427 / 100) = Finite (6831397684767621 / 281474976710656)"
  by (rule fl_round_cert[where k = 4 and n = 6831397684767621], simp_all)

lemma price_2: "price ''gke'' ''e2-small'' = Inr (Finite (6831397684767621 / 281474976710656))"
proof -
  have "price ''gke'' ''e2-small'' = Inr (fl_round (2427 / 100))"
    by (simp add: price_def subscript_def pricing_def)
  then show ?thesis by (simp only: lit_1)
qed

lemma conv_3: "fl_of_int 1 = Inr (Finite 1)"
  using fl_of_int_small[of 1] by simp

lemma mul_4: "fl_mul (Finite (6831397684767621 / 281474976710656)) (Finite 1) = Finite (6831397684767621 / 281474976710656)"
  by (simp only: fl_mul.simps) (rule fl_round_cert[where k = 4 and n = 6831397684767621], simp_all)

lemma lit_0_2: "fl_round (2 / 10) = Finite (3602879701896397 / 18014398509481984)"
  by (rule fl_round_cert[where k = "- 3" and n = 7205759403792794], simp_all)

lemma mul_5: "fl_mul (Finite (6831397684767621 / 281474976710656)) (Finite (3602879701896397 / 18014398509481984)) = Finite (5465118147814097 / 1125899906842624)"
  by (simp only: fl_mul.simps) (rule fl_round_cert[where k = 2 and n = 5465118147814097], simp_all)

lemma demo_gke_value: "calculate_gke_cost ''e2-small'' 1 True = Inr (Finite (5465118147814097 / 1125899906842624))"
  by (simp only: calculate_gke_cost_def ebind_Inr fl_mul_fi_def if_True if_False
        price_2 conv_3 mul_4 lit_0_2 mul_5)

lemma lit_6: "fl_round (15) = Finite 15"
  by (rule fl_round_cert[where k = 3 and n = 8444249301319680], simp_all)

lemma price_7: "price ''cloud_sql'' ''db-f1-micro'' = Inr (Finite 15)"
proof -
  have "price ''cloud_sql'' ''db-f1-micro'' = Inr (fl_round (15))"
    by (simp add: price_def subscript_def pricing_def)
  then show ?thesis by (simp only: lit_6)
qed

lemma lit_8: "fl_round (17 / 100) = Finite (6124895493223875 / 36028797018963968)"
  by (rule fl_round_cert[where k = "- 3" and n = 6124895493223875], simp_all)

lemma price_9: "price ''storage'' ''cloud_sql_ssd'' = Inr (Finite (6124895493223875 / 36028797018963968))"
proof -
  have "price ''storage'' ''cloud_sql_ssd'' = Inr (fl_round (17 / 100))"
    by (simp add: price_def subscript_def pricing_def)
  then show ?thesis by (simp only: lit_8)
qed

lemma conv_10: "fl_of_int 20 = Inr (Finite 20)"
  using fl_of_int_small[of 20] by simp

lemma mul_11: "fl_mul (Finite 20) (Finite (6124895493223875 / 36028797018963968)) = Finite (1914029841632461 / 562949953421312)"
  by (simp only: fl_mul.simps) (rule fl_round_cert[where k = 1 and n = 7656119366529844], simp_all)

lemma conv_12: "fl_of_int 5 = Inr (Finite 5)"
  using fl_of_int_small[of 5] by simp

lemma mul_13: "fl_mul (Finite 5) (Finite (6124895493223875 / 36028797018963968)) = Finite (1914029841632461 / 2251799813685248)"
  by (simp only: fl_mul.simps) (rule fl_round_cert[where k = "- 1" and n = 7656119366529844], simp_all)

lemma lit_14: "fl_round (8 / 100) = Finite (5764607523034235 / 72057594037927936)"
  by (rule fl_round_cert[where k = "- 4" and n = 5764607523034235], simp_all)

lemma mul_15: "fl_mul (Finite (1914029841632461 / 2251799813685248)) (Finite (5764607523034235 / 72057594037927936)) = Finite (1224979098644775 / 18014398509481984)"
  by (simp only: fl_mul.simps) (rule fl_round_cert[where k = "- 4" and n = 4899916394579100], simp_all)

lemma add_16: "fl_add (Finite 15) (Finite (1914029841632461 / 562949953421312)) = Finite (2589569785738035 / 140737488355328)"
  by (simp only: fl_add.simps) (rule fl_round_cert[where k = 4 and n = 5179139571476070], simp_all)

lemma add_17: "fl_add (Finite (2589569785738035 / 140737488355328)) (Finite (1224979098644775 / 18014398509481984)) = Finite (5198279869892395 / 281474976710656)"
  by (simp only: fl_add.simps) (rule fl_round_cert[where k = 4 and n = 5198279869892395], simp_all)

lemma demo_sql_value: "calculate_cloud_sql_cost ''db-f1-micro'' 20 False 5 = Inr (Finite (5198279869892395 / 281474976710656))"
  by (simp only: calculate_cloud_sql_cost_def ebind_Inr fl_mul_fi_def fl_mul_if_def Let_def if_True if_False
        price_7 price_9 conv_10 mul_11 conv_12 mul_13 lit_14 mul_15 add_16 add_17)

lemma truediv_18: "int_truediv (10000) 1000000 = Inr (Finite (5764607523034235 / 576460752303423488))"
proof -
  have r: "fl_round (of_int (10000) / of_int 1000000) = Finite (5764607523034235 / 576460752303423488)"
    by (rule fl_round_cert[where k = "- 7" and n = 5764607523034235], simp_all)
  have "int_truediv (10000) 1000000 = Inr (fl_round (of_int (10000) / of_int 1000000))"
    by (rule int_truediv_ok) simp_all
  then show ?thesis by (simp only: r)
qed

lemma lit_19: "fl_round (40 / 100) = Finite (3602879701896397 / 9007199254740992)"
  by (rule fl_round_cert[where k = "- 2" and n = 7205759403792794], simp_all)

lemma price_20: "price ''cloud_run'' ''requests'' = Inr (Finite (3602879701896397 / 9007199254740992))"
proof -
  have "price ''cloud_run'' ''requests'' = Inr (fl_round (40 / 100))"
    by (simp add: price_def subscript_def pricing_def)
  then show ?thesis by (simp only: lit_19)
qed

lemma mul_21: "fl_mul (Finite (5764607523034235 / 576460752303423488)) (Finite (3602879701896397 / 9007199254740992)) = Finite (1152921504606847 / 288230376151711744)"
  by (simp only: fl_mul.simps) (rule fl_round_cert[where k = "- 8" and n = 4611686018427388], simp_all)

lemma truediv_22: "int_truediv (10000 * 200) 1000 = Inr (Finite 2000)"
proof -
  have r: "fl_round (of_int (10000 * 200) / of_int 1000) = Finite 2000"
    by (rule fl_round_cert[where k = 10 and n = 8796093022208000], simp_all)
  have "int_truediv (10000 * 200) 1000 = Inr (fl_round (of_int (10000 * 200) / of_int 1000))"
    by (rule int_truediv_ok) simp_all
  then show ?thesis by (simp only: r)
qed

lemma mul_23: "fl_mul (Finite 2000) (Finite 1) = Finite 2000"
  by (simp only: fl_mul.simps) (rule fl_round_cert[where k = 10 and n = 8796093022208000], simp_all)

lemma lit_24: "fl_round (24 / 1000000) = Finite (1770887431076117 / 73786976294838206464)"
  by (rule fl_round_cert[where k = "- 16" and n = 7083549724304468], simp_all)

lemma price_25: "price ''cloud_run'' ''cpu_time'' = Inr (Finite (1770887431076117 / 73786976294838206464))"
proof -
  have "price ''cloud_run'' ''cpu_time'' = Inr (fl_round (24 / 1000000))"
    by (simp add: price_def subscript_def pricing_def)
  then show ?thesis by (simp only: lit_24)
qed

lemma mul_26: "fl_mul (Finite 2000) (Finite (1770887431076117 / 73786976294838206464)) = Finite (3458764513820541 / 72057594037927936)"
  by (simp only: fl_mul.simps) (rule fl_round_cert[where k = "- 5" and n = 6917529027641082], simp_all)

lemma conv_27: "fl_of_int 256 = Inr (Finite 256)"
  using fl_of_int_small[of 256] by simp

lemma mul_28: "fl_mul (Finite 2000) (Finite 256) = Finite 512000"
  by (simp only: fl_mul.simps) (rule fl_round_cert[where k = 18 and n = 8796093022208000], simp_all)

lemma conv_29: "fl_of_int 1024 = Inr (Finite 1024)"
  using fl_of_int_small[of 1024] by simp

lemma div_30: "fl_div (Finite 512000) (Finite 1024) = Inr (Finite 500)"
proof -
  have r: "fl_round (512000 / 1024) = Finite 500"
    by (rule fl_round_cert[where k = 8 and n = 8796093022208000], simp_all)
  have "fl_div (Finite 512000) (Finite 1024) = Inr (fl_round (512000 / 1024))" by simp
  then show ?thesis by (simp only: r)
qed

lemma lit_31: "fl_round (25 / 10000000) = Finite (5902958103587057 / 2361183241434822606848)"
  by (rule fl_round_cert[where k = "- 19" and n = 5902958103587057], simp_all)

lemma price_32: "price ''cloud_run'' ''memory_time'' = Inr (Finite (5902958103587057 / 2361183241434822606848))"
proof -
  have "price ''cloud_run'' ''memory_time'' = Inr (fl_round (25 / 10000000))"
    by (simp add: price_def subscript_def pricing_def)
  then show ?thesis by (simp only: lit_31)
qed

lemma mul_33: "fl_mul (Finite 500) (Finite (5902958103587057 / 2361183241434822606848)) = Finite (5764607523034235 / 4611686018427387904)"
  by (simp only: fl_mul.simps) (rule fl_round_cert[where k = "- 10" and n = 5764607523034235], simp_all)

lemma lit_8_76: "fl_round (876 / 100) = Finite (4931441591970693 / 562949953421312)"
  by (rule fl_round_cert[where k = 3 and n = 4931441591970693], simp_all)

lemma price_34: "price ''cloud_run'' ''min_instances'' = Inr (Finite (4931441591970693 / 562949953421312))"
proof -
  have "price ''cloud_run'' ''min_instances'' = Inr (fl_round (876 / 100))"
    by (simp add: price_def subscript_def pricing_def)
  then show ?thesis by (simp only: lit_8_76)
qed

lemma conv_35: "fl_of_int 0 = Inr (Finite 0)"
  using fl_of_int_small[of 0] by simp

lemma mul_36: "fl_mul (Finite 0) (Finite (4931441591970693 / 562949953421312)) = Finite 0"
  by simp

lemma add_37: "fl_add (Finite (1152921504606847 / 288230376151711744)) (Finite (3458764513820541 / 72057594037927936)) = Finite (3746994889972253 / 72057594037927936)"
  by (simp only: fl_add.simps) (rule fl_round_cert[where k = "- 5" and n = 7493989779944506], simp_all)

lemma add_38: "fl_add (Finite (3746994889972253 / 72057594037927936)) (Finite (5764607523034235 / 4611686018427387904)) = Finite (3837066882519663 / 72057594037927936)"
  by (simp only: fl_add.simps) (rule fl_round_cert[where k = "- 5" and n = 7674133765039326], simp_all)

lemma add_39: "fl_add (Finite (3837066882519663 / 72057594037927936)) (Finite 0) = Finite (3837066882519663 / 72057594037927936)"
  by (simp only: fl_add.simps) (rule fl_round_cert[where k = "- 5" and n = 7674133765039326], simp_all)

lemma run_40: "calculate_cloud_run_cost 10000 200 256 0 = Inr (Finite (3837066882519663 / 72057594037927936))"
  by (simp only: calculate_cloud_run_cost_def ebind_Inr fl_mul_fi_def fl_mul_if_def fl_div_fi_def Let_def
        truediv_18 price_20 mul_21 truediv_22 conv_3 mul_23 price_25 mul_26 conv_27 mul_28 conv_29 div_30 price_32 mul_33 price_34 conv_35 mul_36 add_37 add_38 add_39)

lemma truediv_41: "int_truediv (1000) 1000000 = Inr (Finite (1152921504606847 / 1152921504606846976))"
proof -
  have r: "fl_round (of_int (1000) / of_int 1000000) = Finite (1152921504606847 / 1152921504606846976)"
    by (rule fl_round_cert[where k = "- 10" and n = 4611686018427388], simp_all)
  have "int_truediv (1000) 1000000 = Inr (fl_round (of_int (1000) / of_int 1000000))"
    by (rule int_truediv_ok) simp_all
  then show ?thesis by (simp only: r)
qed

lemma mul_42: "fl_mul (Finite (1152921504606847 / 1152921504606846976)) (Finite (3602879701896397 / 9007199254740992)) = Finite (7378697629483821 / 18446744073709551616)"
  by (simp only: fl_mul.simps) (rule fl_round_cert[where k = "- 12" and n = 7378697629483821], simp_all)

lemma truediv_43: "int_truediv (1000 * 400) 1000 = Inr (Finite 400)"
proof -
  have r: "fl_round (of_int (1000 * 400) / of_int 1000) = Finite 400"
    by (rule fl_round_cert[where k = 8 and n = 7036874417766400], simp_all)
  have "int_truediv (1000 * 400) 1000 = Inr (fl_round (of_int (1000 * 400) / of_int 1000))"
    by (rule int_truediv_ok) simp_all
  then show ?thesis by (simp only: r)
qed

lemma mul_44: "fl_mul (Finite 400) (Finite 1) = Finite 400"
  by (simp only: fl_mul.simps) (rule fl_round_cert[where k = 8 and n = 7036874417766400], simp_all)

lemma mul_45: "fl_mul (Finite 400) (Finite (1770887431076117 / 73786976294838206464)) = Finite (2767011611056433 / 288230376151711744)"
  by (simp only: fl_mul.simps) (rule fl_round_cert[where k = "- 7" and n = 5534023222112866], simp_all)

lemma conv_46: "fl_of_int 512 = Inr (Finite 512)"
  using fl_of_int_small[of 512] by simp

lemma mul_47: "fl_mul (Finite 400) (Finite 512) = Finite 204800"
  by (simp only: fl_mul.simps) (rule fl_round_cert[where k = 17 and n = 7036874417766400], simp_all)

lemma div_48: "fl_div (Finite 204800) (Finite 1024) = Inr (Finite 200)"
proof -
  have r: "fl_round (204800 / 1024) = Finite 200"
    by (rule fl_round_cert[where k = 7 and n = 7036874417766400], simp_all)
  have "fl_div (Finite 204800) (Finite 1024) = Inr (fl_round (204800 / 1024))" by simp
  then show ?thesis by (simp only: r)
qed

lemma mul_49: "fl_mul (Finite 200) (Finite (5902958103587057 / 2361183241434822606848)) = Finite (1152921504606847 / 2305843009213693952)"
  by (simp only: fl_mul.simps) (rule fl_round_cert[where k = "- 11" and n = 4611686018427388], simp_all)

lemma add_50: "fl_add (Finite (7378697629483821 / 18446744073709551616)) (Finite (2767011611056433 / 288230376151711744)) = Finite (5764607523034235 / 576460752303423488)"
  by (simp only: fl_add.simps) (rule fl_round_cert[where k = "- 7" and n = 5764607523034235], simp_all)

lemma add_51: "fl_add (Finite (5764607523034235 / 576460752303423488)) (Finite (1152921504606847 / 2305843009213693952)) = Finite (6052837899185947 / 576460752303423488)"
  by (simp only: fl_add.simps) (rule fl_round_cert[where k = "- 7" and n = 6052837899185947], simp_all)

lemma add_52: "fl_add (Finite (6052837899185947 / 576460752303423488)) (Finite 0) = Finite (6052837899185947 / 576460752303423488)"
  by (simp only: fl_add.simps) (rule fl_round_cert[where k = "- 7" and n = 6052837899185947], simp_all)

lemma run_53: "calculate_cloud_run_cost 1000 400 512 0 = Inr (Finite (6052837899185947 / 576460752303423488))"
  by (simp only: calculate_cloud_run_cost_def ebind_Inr fl_mul_fi_def fl_mul_if_def fl_div_fi_def Let_def
        truediv_41 price_20 mul_42 truediv_43 conv_3 mul_44 price_25 mul_45 conv_46 mul_47 conv_29 div_48 price_32 mul_49 price_34 conv_35 mul_36 add_50 add_51 add_52)

lemma price_54: "price ''storage'' ''persistent_ssd'' = Inr (Finite (6124895493223875 / 36028797018963968))"
proof -
  have "price ''storage'' ''persistent_ssd'' = Inr (fl_round (17 / 100))"
    by (simp add: price_def subscript_def pricing_def)
  then show ?thesis by (simp only: lit_8)
qed

lemma conv_55: "fl_of_int 50 = Inr (Finite 50)"
  using fl_of_int_small[of 50] by simp

lemma mul_56: "fl_mul (Finite 50) (Finite (6124895493223875 / 36028797018963968)) = Finite (17 / 2)"
  by (simp only: fl_mul.simps) (rule fl_round_cert[where k = 3 and n = 4785074604081152], simp_all)

lemma lit_57: "fl_round (18) = Finite 18"
  by (rule fl_round_cert[where k = 4 and n = 5066549580791808], simp_all)

lemma price_58: "price ''network'' ''load_balancer'' = Inr (Finite 18)"
proof -
  have "price ''network'' ''load_balancer'' = Inr (fl_round (18))"
    by (simp add: price_def subscript_def pricing_def)
  then show ?thesis by (simp only: lit_57)
qed

lemma lit_59: "fl_round (12 / 100) = Finite (1080863910568919 / 9007199254740992)"
  by (rule fl_round_cert[where k = "- 4" and n = 8646911284551352], simp_all)

lemma price_60: "price ''network'' ''egress_internet'' = Inr (Finite (1080863910568919 / 9007199254740992))"
proof -
  have "price ''network'' ''egress_internet'' = Inr (fl_round (12 / 100))"
    by (simp add: price_def subscript_def pricing_def)
  then show ?thesis by (simp only: lit_59)
qed

lemma conv_61: "fl_of_int 10 = Inr (Finite 10)"
  using fl_of_int_small[of 10] by simp

lemma mul_62: "fl_mul (Finite 10) (Finite (1080863910568919 / 9007199254740992)) = Finite (5404319552844595 / 4503599627370496)"
  by (simp only: fl_mul.simps) (rule fl_round_cert[where k = 0 and n = 5404319552844595], simp_all)

lemma lit_63: "fl_round (5) = Finite 5"
  by (rule fl_round_cert[where k = 2 and n = 5629499534213120], simp_all)

lemma price_64: "price ''operations'' ''monitoring_basic'' = Inr (Finite 5)"
proof -
  have "price ''operations'' ''monitoring_basic'' = Inr (fl_round (5))"
    by (simp add: price_def subscript_def pricing_def)
  then show ?thesis by (simp only: lit_63)
qed

lemma costs_demo:
  "scenario_costs ''demo'' (snd (scenarios ! 0)) = Inr
     [(''gke'', PyFloat (Finite (5465118147814097 / 1125899906842624))),
      (''cloud_sql'', PyFloat (Finite (5198279869892395 / 281474976710656))),
      (''cloud_run_web'', PyFloat (Finite (3837066882519663 / 72057594037927936))),
      (''cloud_run_worker'', PyFloat (Finite (6052837899185947 / 576460752303423488))),
      (''storage'', PyFloat (Finite (17 / 2))),
      (''load_balancer'', PyFloat (Finite 18)),
      (''egress'', PyFloat (Finite (5404319552844595 / 4503599627370496))),
      (''monitoring'', PyFloat (Finite 5))]"
  by (simp add: scenario_costs_def scenarios_def Let_def fl_mul_if_def
        demo_gke_value demo_sql_value run_40 run_53 price_54 conv_55 mul_56 price_58 price_60 conv_61 mul_62 price_64
        del: fl_mul.simps fl_add.simps)

lemma add_65: "fl_add (Finite 0) (Finite (5465118147814097 / 1125899906842624)) = Finite (5465118147814097 / 1125899906842624)"
  by (simp only: fl_add.simps) (rule fl_round_cert[where k = 2 and n = 5465118147814097], simp_all)

lemma add_66: "fl_add (Finite (5465118147814097 / 1125899906842624)) (Finite (5198279869892395 / 281474976710656)) = Finite (6564559406845919 / 281474976710656)"
  by (simp only: fl_add.simps) (rule fl_round_cert[where k = 4 and n = 6564559406845919], simp_all)

lemma add_67: "fl_add (Finite (6564559406845919 / 281474976710656)) (Finite (3837066882519663 / 72057594037927936)) = Finite (6579547949355761 / 281474976710656)"
  by (simp only: fl_add.simps) (rule fl_round_cert[where k = 4 and n = 6579547949355761], simp_all)

lemma add_68: "fl_add (Finite (6579547949355761 / 281474976710656)) (Finite (6052837899185947 / 576460752303423488)) = Finite (6582503436611223 / 281474976710656)"
  by (simp only: fl_add.simps) (rule fl_round_cert[where k = 4 and n = 6582503436611223], simp_all)

lemma add_69: "fl_add (Finite (6582503436611223 / 281474976710656)) (Finite (17 / 2)) = Finite (8975040738651799 / 281474976710656)"
  by (simp only: fl_add.simps) (rule fl_round_cert[where k = 4 and n = 8975040738651799], simp_all)

lemma add_70: "fl_add (Finite (8975040738651799 / 281474976710656)) (Finite 18) = Finite (1755198789930451 / 35184372088832)"
  by (simp only: fl_add.simps) (rule fl_round_cert[where k = 5 and n = 7020795159721804], simp_all)

lemma add_71: "fl_add (Finite (1755198789930451 / 35184372088832)) (Finite (5404319552844595 / 4503599627370496)) = Finite (3594840072874099 / 70368744177664)"
  by (simp only: fl_add.simps) (rule fl_round_cert[where k = 5 and n = 7189680145748198], simp_all)

lemma add_72: "fl_add (Finite (3594840072874099 / 70368744177664)) (Finite 5) = Finite (3946683793762419 / 70368744177664)"
  by (simp only: fl_add.simps) (rule fl_round_cert[where k = 5 and n = 7893367587524838], simp_all)

lemma sum_demo:
  "py_sum
     [PyFloat (Finite (5465118147814097 / 1125899906842624)),
      PyFloat (Finite (5198279869892395 / 281474976710656)),
      PyFloat (Finite (3837066882519663 / 72057594037927936)),
      PyFloat (Finite (6052837899185947 / 576460752303423488)),
      PyFloat (Finite (17 / 2)),
      PyFloat (Finite 18),
      PyFloat (Finite (5404319552844595 / 4503599627370496)),
      PyFloat (Finite 5)] = Inr (PyFloat (Finite (3946683793762419 / 70368744177664)))"
  by (simp only: py_sum_def sum_from.simps py_add.simps ebind_Inr
        conv_35 add_65 add_66 add_67 add_68 add_69 add_70 add_71 add_72)

lemma conv_73: "fl_of_int 12 = Inr (Finite 12)"
  using fl_of_int_small[of 12] by simp

lemma mul_74: "fl_mul (Finite (3946683793762419 / 70368744177664)) (Finite 12) = Finite (1480006422660907 / 2199023255552)"
  by (simp only: fl_mul.simps) (rule fl_round_cert[where k = 9 and n = 5920025690643628], simp_all)

lemma lit_75: "fl_round (4855 / 100) = Finite (3416402529825587 / 70368744177664)"
  by (rule fl_round_cert[where k = 5 and n = 6832805059651174], simp_all)

lemma price_76: "price ''gke'' ''e2-medium'' = Inr (Finite (3416402529825587 / 70368744177664))"
proof -
  have "price ''gke'' ''e2-medium'' = Inr (fl_round (4855 / 100))"
    by (simp add: price_def subscript_def pricing_def)
  then show ?thesis by (simp only: lit_75)
qed

lemma conv_77: "fl_of_int 2 = Inr (Finite 2)"
  using fl_of_int_small[of 2] by simp

lemma mul_78: "fl_mul (Finite (3416402529825587 / 70368744177664)) (Finite 2) = Finite (3416402529825587 / 35184372088832)"
  by (simp only: fl_mul.simps) (rule fl_round_cert[where k = 6 and n = 6832805059651174], simp_all)

lemma gke_79: "calculate_gke_cost ''e2-medium'' 2 False = Inr (Finite (3416402529825587 / 35184372088832))"
  by (simp only: calculate_gke_cost_def ebind_Inr fl_mul_fi_def if_True if_False
        price_76 conv_77 mul_78)

lemma lit_80: "fl_round (95) = Finite 95"
  by (rule fl_round_cert[where k = 6 and n = 6685030696878080], simp_all)

lemma price_81: "price ''cloud_sql'' ''db-n1-standard-1'' = Inr (Finite 95)"
proof -
  have "price ''cloud_sql'' ''db-n1-standard-1'' = Inr (fl_round (95))"
    by (simp add: price_def subscript_def pricing_def)
  then show ?thesis by (simp only: lit_80)
qed

lemma conv_82: "fl_of_int 15 = Inr (Finite 15)"
  using fl_of_int_small[of 15] by simp

lemma mul_83: "fl_mul (Finite 15) (Finite (6124895493223875 / 36028797018963968)) = Finite (5742089524897383 / 2251799813685248)"
  by (simp only: fl_mul.simps) (rule fl_round_cert[where k = 1 and n = 5742089524897383], simp_all)

lemma mul_84: "fl_mul (Finite (5742089524897383 / 2251799813685248)) (Finite (5764607523034235 / 72057594037927936)) = Finite (3674937295934325 / 18014398509481984)"
  by (simp only: fl_mul.simps) (rule fl_round_cert[where k = "- 3" and n = 7349874591868650], simp_all)

lemma add_85: "fl_add (Finite 95) (Finite (17 / 2)) = Finite (207 / 2)"
  by (simp only: fl_add.simps) (rule fl_round_cert[where k = 6 and n = 7283165022388224], simp_all)

lemma add_86: "fl_add (Finite (207 / 2)) (Finite (3674937295934325 / 18014398509481984)) = Finite (7297520246200467 / 70368744177664)"
  by (simp only: fl_add.simps) (rule fl_round_cert[where k = 6 and n = 7297520246200467], simp_all)

lemma sql_87: "calculate_cloud_sql_cost ''db-n1-standard-1'' 50 False 15 = Inr (Finite (7297520246200467 / 70368744177664))"
  by (simp only: calculate_cloud_sql_cost_def ebind_Inr fl_mul_fi_def fl_mul_if_def Let_def if_True if_False
        price_81 price_9 conv_55 mul_56 conv_82 mul_83 lit_14 mul_84 add_85 add_86)

lemma truediv_88: "int_truediv (50000) 1000000 = Inr (Finite (3602879701896397 / 72057594037927936))"
proof -
  have r: "fl_round (of_int (50000) / of_int 1000000) = Finite (3602879701896397 / 72057594037927936)"
    by (rule fl_round_cert[where k = "- 5" and n = 7205759403792794], simp_all)
  have "int_truediv (50000) 1000000 = Inr (fl_round (of_int (50000) / of_int 1000000))"
    by (rule int_truediv_ok) simp_all
  then show ?thesis by (simp only: r)
qed

lemma mul_89: "fl_mul (Finite (3602879701896397 / 72057594037927936)) (Finite (3602879701896397 / 9007199254740992)) = Finite (1441151880758559 / 72057594037927936)"
  by (simp only: fl_mul.simps) (rule fl_round_cert[where k = "- 6" and n = 5764607523034236], simp_all)

lemma truediv_90: "int_truediv (50000 * 300) 1000 = Inr (Finite 15000)"
proof -
  have r: "fl_round (of_int (50000 * 300) / of_int 1000) = Finite 15000"
    by (rule fl_round_cert[where k = 13 and n = 8246337208320000], simp_all)
  have "int_truediv (50000 * 300) 1000 = Inr (fl_round (of_int (50000 * 300) / of_int 1000))"
    by (rule int_truediv_ok) simp_all
  then show ?thesis by (simp only: r)
qed

lemma mul_91: "fl_mul (Finite 15000) (Finite 1) = Finite 15000"
  by (simp only: fl_mul.simps) (rule fl_round_cert[where k = 13 and n = 8246337208320000], simp_all)

lemma mul_92: "fl_mul (Finite 15000) (Finite (1770887431076117 / 73786976294838206464)) = Finite (3242591731706757 / 9007199254740992)"
  by (simp only: fl_mul.simps) (rule fl_round_cert[where k = "- 2" and n = 6485183463413514], simp_all)

lemma mul_93: "fl_mul (Finite 15000) (Finite 512) = Finite 7680000"
  by (simp only: fl_mul.simps) (rule fl_round_cert[where k = 22 and n = 8246337208320000], simp_all)

lemma div_94: "fl_div (Finite 7680000) (Finite 1024) = Inr (Finite 7500)"
proof -
  have r: "fl_round (7680000 / 1024) = Finite 7500"
    by (rule fl_round_cert[where k = 12 and n = 8246337208320000], simp_all)
  have "fl_div (Finite 7680000) (Finite 1024) = Inr (fl_round (7680000 / 1024))" by simp
  then show ?thesis by (simp only: r)
qed

lemma mul_95: "fl_mul (Finite 7500) (Finite (5902958103587057 / 2361183241434822606848)) = Finite (1351079888211149 / 72057594037927936)"
  by (simp only: fl_mul.simps) (rule fl_round_cert[where k = "- 6" and n = 5404319552844596], simp_all)

lemma add_96: "fl_add (Finite (1441151880758559 / 72057594037927936)) (Finite (3242591731706757 / 9007199254740992)) = Finite (3422735716801577 / 9007199254740992)"
  by (simp only: fl_add.simps) (rule fl_round_cert[where k = "- 2" and n = 6845471433603154], simp_all)

lemma add_97: "fl_add (Finite (3422735716801577 / 9007199254740992)) (Finite (1351079888211149 / 72057594037927936)) = Finite (7183241405655941 / 18014398509481984)"
  by (simp only: fl_add.simps) (rule fl_round_cert[where k = "- 2" and n = 7183241405655941], simp_all)

lemma add_98: "fl_add (Finite (7183241405655941 / 18014398509481984)) (Finite 0) = Finite (7183241405655941 / 18014398509481984)"
  by (simp only: fl_add.simps) (rule fl_round_cert[where k = "- 2" and n = 7183241405655941], simp_all)

lemma run_99: "calculate_cloud_run_cost 50000 300 512 0 = Inr (Finite (7183241405655941 / 18014398509481984))"
  by (simp only: calculate_cloud_run_cost_def ebind_Inr fl_mul_fi_def fl_mul_if_def fl_div_fi_def Let_def
        truediv_88 price_20 mul_89 truediv_90 conv_3 mul_91 price_25 mul_92 conv_46 mul_93 conv_29 div_94 price_32 mul_95 price_34 conv_35 mul_36 add_96 add_97 add_98)

lemma truediv_100: "int_truediv (5000) 1000000 = Inr (Finite (5764607523034235 / 1152921504606846976))"
proof -
  have r: "fl_round (of_int (5000) / of_int 1000000) = Finite (5764607523034235 / 1152921504606846976)"
    by (rule fl_round_cert[where k = "- 8" and n = 5764607523034235], simp_all)
  have "int_truediv (5000) 1000000 = Inr (fl_round (of_int (5000) / of_int 1000000))"
    by (rule int_truediv_ok) simp_all
  then show ?thesis by (simp only: r)
qed

lemma mul_101: "fl_mul (Finite (5764607523034235 / 1152921504606846976)) (Finite (3602879701896397 / 9007199254740992)) = Finite (1152921504606847 / 576460752303423488)"
  by (simp only: fl_mul.simps) (rule fl_round_cert[where k = "- 9" and n = 4611686018427388], simp_all)

lemma truediv_102: "int_truediv (5000 * 600) 1000 = Inr (Finite 3000)"
proof -
  have r: "fl_round (of_int (5000 * 600) / of_int 1000) = Finite 3000"
    by (rule fl_round_cert[where k = 11 and n = 6597069766656000], simp_all)
  have "int_truediv (5000 * 600) 1000 = Inr (fl_round (of_int (5000 * 600) / of_int 1000))"
    by (rule int_truediv_ok) simp_all
  then show ?thesis by (simp only: r)
qed

lemma mul_103: "fl_mul (Finite 3000) (Finite 1) = Finite 3000"
  by (simp only: fl_mul.simps) (rule fl_round_cert[where k = 11 and n = 6597069766656000], simp_all)

lemma mul_104: "fl_mul (Finite 3000) (Finite (1770887431076117 / 73786976294838206464)) = Finite (1297036692682703 / 18014398509481984)"
  by (simp only: fl_mul.simps) (rule fl_round_cert[where k = "- 4" and n = 5188146770730812], simp_all)

lemma mul_105: "fl_mul (Finite 3000) (Finite 1024) = Finite 3072000"
  by (simp only: fl_mul.simps) (rule fl_round_cert[where k = 21 and n = 6597069766656000], simp_all)

lemma div_106: "fl_div (Finite 3072000) (Finite 1024) = Inr (Finite 3000)"
proof -
  have r: "fl_round (3072000 / 1024) = Finite 3000"
    by (rule fl_round_cert[where k = 11 and n = 6597069766656000], simp_all)
  have "fl_div (Finite 3072000) (Finite 1024) = Inr (fl_round (3072000 / 1024))" by simp
  then show ?thesis by (simp only: r)
qed

lemma mul_107: "fl_mul (Finite 3000) (Finite (5902958103587057 / 2361183241434822606848)) = Finite (8646911284551353 / 1152921504606846976)"
  by (simp only: fl_mul.simps) (rule fl_round_cert[where k = "- 8" and n = 8646911284551353], simp_all)

lemma add_108: "fl_add (Finite (1152921504606847 / 576460752303423488)) (Finite (1297036692682703 / 18014398509481984)) = Finite (1333065489701667 / 18014398509481984)"
  by (simp only: fl_add.simps) (rule fl_round_cert[where k = "- 4" and n = 5332261958806668], simp_all)

lemma add_109: "fl_add (Finite (1333065489701667 / 18014398509481984)) (Finite (8646911284551353 / 1152921504606846976)) = Finite (734086739261391 / 9007199254740992)"
  by (simp only: fl_add.simps) (rule fl_round_cert[where k = "- 4" and n = 5872693914091128], simp_all)

lemma add_110: "fl_add (Finite (734086739261391 / 9007199254740992)) (Finite 0) = Finite (734086739261391 / 9007199254740992)"
  by (simp only: fl_add.simps) (rule fl_round_cert[where k = "- 4" and n = 5872693914091128], simp_all)

lemma run_111: "calculate_cloud_run_cost 5000 600 1024 0 = Inr (Finite (734086739261391 / 9007199254740992))"
  by (simp only: calculate_cloud_run_cost_def ebind_Inr fl_mul_fi_def fl_mul_if_def fl_div_fi_def Let_def
        truediv_100 price_20 mul_101 truediv_102 conv_3 mul_103 price_25 mul_104 conv_29 mul_105 div_106 price_32 mul_107 price_34 conv_35 mul_36 add_108 add_109 add_110)

lemma conv_112: "fl_of_int 100 = Inr (Finite 100)"
  using fl_of_int_small[of 100] by simp

lemma mul_113: "fl_mul (Finite 100) (Finite (6124895493223875 / 36028797018963968)) = Finite 17"
  by (simp only: fl_mul.simps) (rule fl_round_cert[where k = 4 and n = 4785074604081152], simp_all)

lemma conv_114: "fl_of_int 25 = Inr (Finite 25)"
  using fl_of_int_small[of 25] by simp

lemma mul_115: "fl_mul (Finite 25) (Finite (1080863910568919 / 9007199254740992)) = Finite 3"
  by (simp only: fl_mul.simps) (rule fl_round_cert[where k = 1 and n = 6755399441055744], simp_all)

lemma costs_staging:
  "scenario_costs ''staging'' (snd (scenarios ! 1)) = Inr
     [(''gke'', PyFloat (Finite (3416402529825587 / 35184372088832))),
      (''cloud_sql'', PyFloat (Finite (7297520246200467 / 70368744177664))),
      (''cloud_run_web'', PyFloat (Finite (7183241405655941 / 18014398509481984))),
      (''cloud_run_worker'', PyFloat (Finite (734086739261391 / 9007199254740992))),
      (''storage'', PyFloat (Finite 17)),
      (''load_balancer'', PyFloat (Finite 18)),
      (''egress'', PyFloat (Finite 3)),
      (''monitoring'', PyFloat (Finite 5))]"
  by (simp add: scenario_costs_def scenarios_def Let_def fl_mul_if_def
        gke_79 sql_87 run_99 run_111 price_54 conv_112 mul_113 price_58 price_60 conv_114 mul_115 price_64
        del: fl_mul.simps fl_add.simps)

lemma add_116: "fl_add (Finite 0) (Finite (3416402529825587 / 35184372088832)) = Finite (3416402529825587 / 35184372088832)"
  by (simp only: fl_add.simps) (rule fl_round_cert[where k = 6 and n = 6832805059651174], simp_all)

lemma add_117: "fl_add (Finite (3416402529825587 / 35184372088832)) (Finite (7297520246200467 / 70368744177664)) = Finite (1766290663231455 / 8796093022208)"
  by (simp only: fl_add.simps) (rule fl_round_cert[where k = 7 and n = 7065162652925820], simp_all)

lemma add_118: "fl_add (Finite (1766290663231455 / 8796093022208)) (Finite (7183241405655941 / 18014398509481984)) = Finite (3539596210648121 / 17592186044416)"
  by (simp only: fl_add.simps) (rule fl_round_cert[where k = 7 and n = 7079192421296242], simp_all)

lemma add_119: "fl_add (Finite (3539596210648121 / 17592186044416)) (Finite (734086739261391 / 9007199254740992)) = Finite (3541029973810741 / 17592186044416)"
  by (simp only: fl_add.simps) (rule fl_round_cert[where k = 7 and n = 7082059947621482], simp_all)

lemma add_120: "fl_add (Finite (3541029973810741 / 17592186044416)) (Finite 17) = Finite (3840097136565813 / 17592186044416)"
  by (simp only: fl_add.simps) (rule fl_round_cert[where k = 7 and n = 7680194273131626], simp_all)

lemma add_121: "fl_add (Finite (3840097136565813 / 17592186044416)) (Finite 18) = Finite (4156756485365301 / 17592186044416)"
  by (simp only: fl_add.simps) (rule fl_round_cert[where k = 7 and n = 8313512970730602], simp_all)

lemma add_122: "fl_add (Finite (4156756485365301 / 17592186044416)) (Finite 3) = Finite (4209533043498549 / 17592186044416)"
  by (simp only: fl_add.simps) (rule fl_round_cert[where k = 7 and n = 8419066086997098], simp_all)

lemma add_123: "fl_add (Finite (4209533043498549 / 17592186044416)) (Finite 5) = Finite (4297493973720629 / 17592186044416)"
  by (simp only: fl_add.simps) (rule fl_round_cert[where k = 7 and n = 8594987947441258], simp_all)

lemma sum_staging:
  "py_sum
     [PyFloat (Finite (3416402529825587 / 35184372088832)),
      PyFloat (Finite (7297520246200467 / 70368744177664)),
      PyFloat (Finite (7183241405655941 / 18014398509481984)),
      PyFloat (Finite (734086739261391 / 9007199254740992)),
      PyFloat (Finite 17),
      PyFloat (Finite 18),
      PyFloat (Finite 3),
      PyFloat (Finite 5)] = Inr (PyFloat (Finite (4297493973720629 / 17592186044416)))"
  by (simp only: py_sum_def sum_from.simps py_add.simps ebind_Inr
        conv_35 add_116 add_117 add_118 add_119 add_120 add_121 add_122 add_123)

lemma mul_124: "fl_mul (Finite (4297493973720629 / 17592186044416)) (Finite 12) = Finite (402890060036309 / 137438953472)"
  by (simp only: fl_mul.simps) (rule fl_round_cert[where k = 11 and n = 6446240960580944], simp_all)

lemma lit_125: "fl_round (9711 / 100) = Finite (6833508747092951 / 70368744177664)"
  by (rule fl_round_cert[where k = 6 and n = 6833508747092951], simp_all)

lemma price_126: "price ''gke'' ''e2-standard-2'' = Inr (Finite (6833508747092951 / 70368744177664))"
proof -
  have "price ''gke'' ''e2-standard-2'' = Inr (fl_round (9711 / 100))"
    by (simp add: price_def subscript_def pricing_def)
  then show ?thesis by (simp only: lit_125)
qed

lemma conv_127: "fl_of_int 3 = Inr (Finite 3)"
  using fl_of_int_small[of 3] by simp

lemma mul_128: "fl_mul (Finite (6833508747092951 / 70368744177664)) (Finite 3) = Finite (5125131560319713 / 17592186044416)"
  by (simp only: fl_mul.simps) (rule fl_round_cert[where k = 8 and n = 5125131560319713], simp_all)

lemma gke_129: "calculate_gke_cost ''e2-standard-2'' 3 False = Inr (Finite (5125131560319713 / 17592186044416))"
  by (simp only: calculate_gke_cost_def ebind_Inr fl_mul_fi_def if_True if_False
        price_126 conv_127 mul_128)

lemma lit_130: "fl_round (190) = Finite 190"
  by (rule fl_round_cert[where k = 7 and n = 6685030696878080], simp_all)

lemma price_131: "price ''cloud_sql'' ''db-n1-standard-2'' = Inr (Finite 190)"
proof -
  have "price ''cloud_sql'' ''db-n1-standard-2'' = Inr (fl_round (190))"
    by (simp add: price_def subscript_def pricing_def)
  then show ?thesis by (simp only: lit_130)
qed

lemma mul_132: "fl_mul (Finite 190) (Finite 2) = Finite 380"
  by (simp only: fl_mul.simps) (rule fl_round_cert[where k = 8 and n = 6685030696878080], simp_all)

lemma mul_133: "fl_mul (Finite (17 / 2)) (Finite (5764607523034235 / 72057594037927936)) = Finite (6124895493223875 / 9007199254740992)"
  by (simp only: fl_mul.simps) (rule fl_round_cert[where k = "- 1" and n = 6124895493223875], simp_all)

lemma add_134: "fl_add (Finite 380) (Finite 17) = Finite 397"
  by (simp only: fl_add.simps) (rule fl_round_cert[where k = 8 and n = 6984097859633152], simp_all)

lemma add_135: "fl_add (Finite 397) (Finite (6124895493223875 / 9007199254740992)) = Finite (6996060546143355 / 17592186044416)"
  by (simp only: fl_add.simps) (rule fl_round_cert[where k = 8 and n = 6996060546143355], simp_all)

lemma sql_136: "calculate_cloud_sql_cost ''db-n1-standard-2'' 100 True 50 = Inr (Finite (6996060546143355 / 17592186044416))"
  by (simp only: calculate_cloud_sql_cost_def ebind_Inr fl_mul_fi_def fl_mul_if_def Let_def if_True if_False
        price_131 conv_77 mul_132 price_9 conv_112 mul_113 conv_55 mul_56 lit_14 mul_133 add_134 add_135)

lemma truediv_137: "int_truediv (200000) 1000000 = Inr (Finite (3602879701896397 / 18014398509481984))"
proof -
  have r: "fl_round (of_int (200000) / of_int 1000000) = Finite (3602879701896397 / 18014398509481984)"
    by (rule fl_round_cert[where k = "- 3" and n = 7205759403792794], simp_all)
  have "int_truediv (200000) 1000000 = Inr (fl_round (of_int (200000) / of_int 1000000))"
    by (rule int_truediv_ok) simp_all
  then show ?thesis by (simp only: r)
qed

lemma mul_138: "fl_mul (Finite (3602879701896397 / 18014398509481984)) (Finite (3602879701896397 / 9007199254740992)) = Finite (1441151880758559 / 18014398509481984)"
  by (simp only: fl_mul.simps) (rule fl_round_cert[where k = "- 4" and n = 5764607523034236], simp_all)

lemma truediv_139: "int_truediv (200000 * 500) 1000 = Inr (Finite 100000)"
proof -
  have r: "fl_round (of_int (200000 * 500) / of_int 1000) = Finite 100000"
    by (rule fl_round_cert[where k = 16 and n = 6871947673600000], simp_all)
  have "int_truediv (200000 * 500) 1000 = Inr (fl_round (of_int (200000 * 500) / of_int 1000))"
    by (rule int_truediv_ok) simp_all
  then show ?thesis by (simp only: r)
qed

lemma mul_140: "fl_mul (Finite 100000) (Finite 1) = Finite 100000"
  by (simp only: fl_mul.simps) (rule fl_round_cert[where k = 16 and n = 6871947673600000], simp_all)

lemma mul_141: "fl_mul (Finite 100000) (Finite (1770887431076117 / 73786976294838206464)) = Finite (5404319552844595 / 2251799813685248)"
  by (simp only: fl_mul.simps) (rule fl_round_cert[where k = 1 and n = 5404319552844595], simp_all)

lemma mul_142: "fl_mul (Finite 100000) (Finite 1024) = Finite 102400000"
  by (simp only: fl_mul.simps) (rule fl_round_cert[where k = 26 and n = 6871947673600000], simp_all)

lemma div_143: "fl_div (Finite 102400000) (Finite 1024) = Inr (Finite 100000)"
proof -
  have r: "fl_round (102400000 / 1024) = Finite 100000"
    by (rule fl_round_cert[where k = 16 and n = 6871947673600000], simp_all)
  have "fl_div (Finite 102400000) (Finite 1024) = Inr (fl_round (102400000 / 1024))" by simp
  then show ?thesis by (simp only: r)
qed

lemma mul_144: "fl_mul (Finite 100000) (Finite (5902958103587057 / 2361183241434822606848)) = Finite (1 / 4)"
  by (simp only: fl_mul.simps) (rule fl_round_cert[where k = "- 2" and n = 4503599627370496], simp_all)

lemma mul_145: "fl_mul (Finite 1) (Finite (4931441591970693 / 562949953421312)) = Finite (4931441591970693 / 562949953421312)"
  by (simp only: fl_mul.simps) (rule fl_round_cert[where k = 3 and n = 4931441591970693], simp_all)

lemma add_146: "fl_add (Finite (1441151880758559 / 18014398509481984)) (Finite (5404319552844595 / 2251799813685248)) = Finite (5584463537939415 / 2251799813685248)"
  by (simp only: fl_add.simps) (rule fl_round_cert[where k = 1 and n = 5584463537939415], simp_all)

lemma add_147: "fl_add (Finite (5584463537939415 / 2251799813685248)) (Finite (1 / 4)) = Finite (6147413491360727 / 2251799813685248)"
  by (simp only: fl_add.simps) (rule fl_round_cert[where k = 1 and n = 6147413491360727], simp_all)

lemma add_148: "fl_add (Finite (6147413491360727 / 2251799813685248)) (Finite (4931441591970693 / 562949953421312)) = Finite (6468294964810875 / 562949953421312)"
  by (simp only: fl_add.simps) (rule fl_round_cert[where k = 3 and n = 6468294964810875], simp_all)

lemma run_149: "calculate_cloud_run_cost 200000 500 1024 1 = Inr (Finite (6468294964810875 / 562949953421312))"
  by (simp only: calculate_cloud_run_cost_def ebind_Inr fl_mul_fi_def fl_mul_if_def fl_div_fi_def Let_def
        truediv_137 price_20 mul_138 truediv_139 conv_3 mul_140 price_25 mul_141 conv_29 mul_142 div_143 price_32 mul_144 price_34 mul_145 add_146 add_147 add_148)

lemma truediv_150: "int_truediv (20000) 1000000 = Inr (Finite (5764607523034235 / 288230376151711744))"
proof -
  have r: "fl_round (of_int (20000) / of_int 1000000) = Finite (5764607523034235 / 288230376151711744)"
    by (rule fl_round_cert[where k = "- 6" and n = 5764607523034235], simp_all)
  have "int_truediv (20000) 1000000 = Inr (fl_round (of_int (20000) / of_int 1000000))"
    by (rule int_truediv_ok) simp_all
  then show ?thesis by (simp only: r)
qed

lemma mul_151: "fl_mul (Finite (5764607523034235 / 288230376151711744)) (Finite (3602879701896397 / 9007199254740992)) = Finite (1152921504606847 / 144115188075855872)"
  by (simp only: fl_mul.simps) (rule fl_round_cert[where k = "- 7" and n = 4611686018427388], simp_all)

lemma truediv_152: "int_truediv (20000 * 1000) 1000 = Inr (Finite 20000)"
proof -
  have r: "fl_round (of_int (20000 * 1000) / of_int 1000) = Finite 20000"
    by (rule fl_round_cert[where k = 14 and n = 5497558138880000], simp_all)
  have "int_truediv (20000 * 1000) 1000 = Inr (fl_round (of_int (20000 * 1000) / of_int 1000))"
    by (rule int_truediv_ok) simp_all
  then show ?thesis by (simp only: r)
qed

lemma mul_153: "fl_mul (Finite 20000) (Finite 1) = Finite 20000"
  by (simp only: fl_mul.simps) (rule fl_round_cert[where k = 14 and n = 5497558138880000], simp_all)

lemma mul_154: "fl_mul (Finite 20000) (Finite (1770887431076117 / 73786976294838206464)) = Finite (8646911284551353 / 18014398509481984)"
  by (simp only: fl_mul.simps) (rule fl_round_cert[where k = "- 2" and n = 8646911284551353], simp_all)

lemma conv_155: "fl_of_int 2048 = Inr (Finite 2048)"
  using fl_of_int_small[of 2048] by simp

lemma mul_156: "fl_mul (Finite 20000) (Finite 2048) = Finite 40960000"
  by (simp only: fl_mul.simps) (rule fl_round_cert[where k = 25 and n = 5497558138880000], simp_all)

lemma div_157: "fl_div (Finite 40960000) (Finite 1024) = Inr (Finite 40000)"
proof -
  have r: "fl_round (40960000 / 1024) = Finite 40000"
    by (rule fl_round_cert[where k = 15 and n = 5497558138880000], simp_all)
  have "fl_div (Finite 40960000) (Finite 1024) = Inr (fl_round (40960000 / 1024))" by simp
  then show ?thesis by (simp only: r)
qed

lemma mul_158: "fl_mul (Finite 40000) (Finite (5902958103587057 / 2361183241434822606848)) = Finite (3602879701896397 / 36028797018963968)"
  by (simp only: fl_mul.simps) (rule fl_round_cert[where k = "- 4" and n = 7205759403792794], simp_all)

lemma add_159: "fl_add (Finite (1152921504606847 / 144115188075855872)) (Finite (8646911284551353 / 18014398509481984)) = Finite (8791026472627209 / 18014398509481984)"
  by (simp only: fl_add.simps) (rule fl_round_cert[where k = "- 2" and n = 8791026472627209], simp_all)

lemma add_160: "fl_add (Finite (8791026472627209 / 18014398509481984)) (Finite (3602879701896397 / 36028797018963968)) = Finite (662029145223463 / 1125899906842624)"
  by (simp only: fl_add.simps) (rule fl_round_cert[where k = "- 1" and n = 5296233161787704], simp_all)

lemma add_161: "fl_add (Finite (662029145223463 / 1125899906842624)) (Finite (4931441591970693 / 562949953421312)) = Finite (657807020572803 / 70368744177664)"
  by (simp only: fl_add.simps) (rule fl_round_cert[where k = 3 and n = 5262456164582424], simp_all)

lemma run_162: "calculate_cloud_run_cost 20000 1000 2048 1 = Inr (Finite (657807020572803 / 70368744177664))"
  by (simp only: calculate_cloud_run_cost_def ebind_Inr fl_mul_fi_def fl_mul_if_def fl_div_fi_def Let_def
        truediv_150 price_20 mul_151 truediv_152 conv_3 mul_153 price_25 mul_154 conv_155 mul_156 conv_29 div_157 price_32 mul_158 price_34 mul_145 add_159 add_160 add_161)

lemma conv_163: "fl_of_int 200 = Inr (Finite 200)"
  using fl_of_int_small[of 200] by simp

lemma mul_164: "fl_mul (Finite 200) (Finite (6124895493223875 / 36028797018963968)) = Finite 34"
  by (simp only: fl_mul.simps) (rule fl_round_cert[where k = 5 and n = 4785074604081152], simp_all)

lemma mul_165: "fl_mul (Finite 100) (Finite (1080863910568919 / 9007199254740992)) = Finite 12"
  by (simp only: fl_mul.simps) (rule fl_round_cert[where k = 3 and n = 6755399441055744], simp_all)

lemma lit_166: "fl_round (25) = Finite 25"
  by (rule fl_round_cert[where k = 4 and n = 7036874417766400], simp_all)

lemma price_167: "price ''operations'' ''monitoring_premium'' = Inr (Finite 25)"
proof -
  have "price ''operations'' ''monitoring_premium'' = Inr (fl_round (25))"
    by (simp add: price_def subscript_def pricing_def)
  then show ?thesis by (simp only: lit_166)
qed

lemma costs_production:
  "scenario_costs ''production'' (snd (scenarios ! 2)) = Inr
     [(''gke'', PyFloat (Finite (5125131560319713 / 17592186044416))),
      (''cloud_sql'', PyFloat (Finite (6996060546143355 / 17592186044416))),
      (''cloud_run_web'', PyFloat (Finite (6468294964810875 / 562949953421312))),
      (''cloud_run_worker'', PyFloat (Finite (657807020572803 / 70368744177664))),
      (''storage'', PyFloat (Finite 34)),
      (''load_balancer'', PyFloat (Finite 18)),
      (''egress'', PyFloat (Finite 12)),
      (''monitoring'', PyFloat (Finite 25))]"
  by (simp add: scenario_costs_def scenarios_def Let_def fl_mul_if_def
        gke_129 sql_136 run_149 run_162 price_54 conv_163 mul_164 price_58 price_60 conv_112 mul_165 price_167
        del: fl_mul.simps fl_add.simps)

lemma add_168: "fl_add (Finite 0) (Finite (5125131560319713 / 17592186044416)) = Finite (5125131560319713 / 17592186044416)"
  by (simp only: fl_add.simps) (rule fl_round_cert[where k = 8 and n = 5125131560319713], simp_all)

lemma add_169: "fl_add (Finite (5125131560319713 / 17592186044416)) (Finite (6996060546143355 / 17592186044416)) = Finite (3030298026615767 / 4398046511104)"
  by (simp only: fl_add.simps) (rule fl_round_cert[where k = 9 and n = 6060596053231534], simp_all)

lemma add_170: "fl_add (Finite (3030298026615767 / 4398046511104)) (Finite (6468294964810875 / 562949953421312)) = Finite (1401 / 2)"
  by (simp only: fl_add.simps) (rule fl_round_cert[where k = 9 and n = 6161663162056704], simp_all)

lemma add_171: "fl_add (Finite (1401 / 2)) (Finite (657807020572803 / 70368744177664)) = Finite (390243064976769 / 549755813888)"
  by (simp only: fl_add.simps) (rule fl_round_cert[where k = 9 and n = 6243889039628304], simp_all)

lemma add_172: "fl_add (Finite (390243064976769 / 549755813888)) (Finite 34) = Finite (408934762648961 / 549755813888)"
  by (simp only: fl_add.simps) (rule fl_round_cert[where k = 9 and n = 6542956202383376], simp_all)

lemma add_173: "fl_add (Finite (408934762648961 / 549755813888)) (Finite 18) = Finite (418830367298945 / 549755813888)"
  by (simp only: fl_add.simps) (rule fl_round_cert[where k = 9 and n = 6701285876783120], simp_all)

lemma add_174: "fl_add (Finite (418830367298945 / 549755813888)) (Finite 12) = Finite (425427437065601 / 549755813888)"
  by (simp only: fl_add.simps) (rule fl_round_cert[where k = 9 and n = 6806838993049616], simp_all)

lemma add_175: "fl_add (Finite (425427437065601 / 549755813888)) (Finite 25) = Finite (439171332412801 / 549755813888)"
  by (simp only: fl_add.simps) (rule fl_round_cert[where k = 9 and n = 7026741318604816], simp_all)

lemma sum_production:
  "py_sum
     [PyFloat (Finite (5125131560319713 / 17592186044416)),
      PyFloat (Finite (6996060546143355 / 17592186044416)),
      PyFloat (Finite (6468294964810875 / 562949953421312)),
      PyFloat (Finite (657807020572803 / 70368744177664)),
      PyFloat (Finite 34),
      PyFloat (Finite 18),
      PyFloat (Finite 12),
      PyFloat (Finite 25)] = Inr (PyFloat (Finite (439171332412801 / 549755813888)))"
  by (simp only: py_sum_def sum_from.simps py_add.simps ebind_Inr
        conv_35 add_168 add_169 add_170 add_171 add_172 add_173 add_174 add_175)

lemma mul_176: "fl_mul (Finite (439171332412801 / 549755813888)) (Finite 12) = Finite (1317513997238403 / 137438953472)"
  by (simp only: fl_mul.simps) (rule fl_round_cert[where k = 13 and n = 5270055988953612], simp_all)

lemma lit_177: "fl_round (19422 / 100) = Finite (6833508747092951 / 35184372088832)"
  by (rule fl_round_cert[where k = 7 and n = 6833508747092951], simp_all)

lemma price_178: "price ''gke'' ''e2-standard-4'' = Inr (Finite (6833508747092951 / 35184372088832))"
proof -
  have "price ''gke'' ''e2-standard-4'' = Inr (fl_round (19422 / 100))"
    by (simp add: price_def subscript_def pricing_def)
  then show ?thesis by (simp only: lit_177)
qed

lemma conv_179: "fl_of_int 6 = Inr (Finite 6)"
  using fl_of_int_small[of 6] by simp

lemma mul_180: "fl_mul (Finite (6833508747092951 / 35184372088832)) (Finite 6) = Finite (5125131560319713 / 4398046511104)"
  by (simp only: fl_mul.simps) (rule fl_round_cert[where k = 10 and n = 5125131560319713], simp_all)

lemma gke_181: "calculate_gke_cost ''e2-standard-4'' 6 False = Inr (Finite (5125131560319713 / 4398046511104))"
  by (simp only: calculate_gke_cost_def ebind_Inr fl_mul_fi_def if_True if_False
        price_178 conv_179 mul_180)

lemma lit_182: "fl_round (380) = Finite 380"
  by (rule fl_round_cert[where k = 8 and n = 6685030696878080], simp_all)

lemma price_183: "price ''cloud_sql'' ''db-n1-standard-4'' = Inr (Finite 380)"
proof -
  have "price ''cloud_sql'' ''db-n1-standard-4'' = Inr (fl_round (380))"
    by (simp add: price_def subscript_def pricing_def)
  then show ?thesis by (simp only: lit_182)
qed

lemma mul_184: "fl_mul (Finite 380) (Finite 2) = Finite 760"
  by (simp only: fl_mul.simps) (rule fl_round_cert[where k = 9 and n = 6685030696878080], simp_all)

lemma mul_185: "fl_mul (Finite 17) (Finite (5764607523034235 / 72057594037927936)) = Finite (6124895493223875 / 4503599627370496)"
  by (simp only: fl_mul.simps) (rule fl_round_cert[where k = 0 and n = 6124895493223875], simp_all)

lemma add_186: "fl_add (Finite 760) (Finite 34) = Finite 794"
  by (simp only: fl_add.simps) (rule fl_round_cert[where k = 9 and n = 6984097859633152], simp_all)

lemma add_187: "fl_add (Finite 794) (Finite (6124895493223875 / 4503599627370496)) = Finite (6996060546143355 / 8796093022208)"
  by (simp only: fl_add.simps) (rule fl_round_cert[where k = 9 and n = 6996060546143355], simp_all)

lemma sql_188: "calculate_cloud_sql_cost ''db-n1-standard-4'' 200 True 100 = Inr (Finite (6996060546143355 / 8796093022208))"
  by (simp only: calculate_cloud_sql_cost_def ebind_Inr fl_mul_fi_def fl_mul_if_def Let_def if_True if_False
        price_183 conv_77 mul_184 price_9 conv_163 mul_164 conv_112 mul_113 lit_14 mul_185 add_186 add_187)

lemma truediv_189: "int_truediv (1000000) 1000000 = Inr (Finite 1)"
proof -
  have r: "fl_round (of_int (1000000) / of_int 1000000) = Finite 1"
    by (rule fl_round_cert[where k = 0 and n = 4503599627370496], simp_all)
  have "int_truediv (1000000) 1000000 = Inr (fl_round (of_int (1000000) / of_int 1000000))"
    by (rule int_truediv_ok) simp_all
  then show ?thesis by (simp only: r)
qed

lemma mul_190: "fl_mul (Finite 1) (Finite (3602879701896397 / 9007199254740992)) = Finite (3602879701896397 / 9007199254740992)"
  by (simp only: fl_mul.simps) (rule fl_round_cert[where k = "- 2" and n = 7205759403792794], simp_all)

lemma truediv_191: "int_truediv (1000000 * 750) 1000 = Inr (Finite 750000)"
proof -
  have r: "fl_round (of_int (1000000 * 750) / of_int 1000) = Finite 750000"
    by (rule fl_round_cert[where k = 19 and n = 6442450944000000], simp_all)
  have "int_truediv (1000000 * 750) 1000 = Inr (fl_round (of_int (1000000 * 750) / of_int 1000))"
    by (rule int_truediv_ok) simp_all
  then show ?thesis by (simp only: r)
qed

lemma mul_192: "fl_mul (Finite 750000) (Finite 1) = Finite 750000"
  by (simp only: fl_mul.simps) (rule fl_round_cert[where k = 19 and n = 6442450944000000], simp_all)

lemma mul_193: "fl_mul (Finite 750000) (Finite (1770887431076117 / 73786976294838206464)) = Finite 18"
  by (simp only: fl_mul.simps) (rule fl_round_cert[where k = 4 and n = 5066549580791808], simp_all)

lemma mul_194: "fl_mul (Finite 750000) (Finite 2048) = Finite 1536000000"
  by (simp only: fl_mul.simps) (rule fl_round_cert[where k = 30 and n = 6442450944000000], simp_all)

lemma div_195: "fl_div (Finite 1536000000) (Finite 1024) = Inr (Finite 1500000)"
proof -
  have r: "fl_round (1536000000 / 1024) = Finite 1500000"
    by (rule fl_round_cert[where k = 20 and n = 6442450944000000], simp_all)
  have "fl_div (Finite 1536000000) (Finite 1024) = Inr (fl_round (1536000000 / 1024))" by simp
  then show ?thesis by (simp only: r)
qed

lemma mul_196: "fl_mul (Finite 1500000) (Finite (5902958103587057 / 2361183241434822606848)) = Finite (8444249301319681 / 2251799813685248)"
  by (simp only: fl_mul.simps) (rule fl_round_cert[where k = 1 and n = 8444249301319681], simp_all)

lemma add_197: "fl_add (Finite (3602879701896397 / 9007199254740992)) (Finite 18) = Finite (2589569785738035 / 140737488355328)"
  by (simp only: fl_add.simps) (rule fl_round_cert[where k = 4 and n = 5179139571476070], simp_all)

lemma add_198: "fl_add (Finite (2589569785738035 / 140737488355328)) (Finite (8444249301319681 / 2251799813685248)) = Finite (3117335367070515 / 140737488355328)"
  by (simp only: fl_add.simps) (rule fl_round_cert[where k = 4 and n = 6234670734141030], simp_all)

lemma add_199: "fl_add (Finite (3117335367070515 / 140737488355328)) (Finite 0) = Finite (3117335367070515 / 140737488355328)"
  by (simp only: fl_add.simps) (rule fl_round_cert[where k = 4 and n = 6234670734141030], simp_all)

lemma run_200: "calculate_cloud_run_cost 1000000 750 2048 0 = Inr (Finite (3117335367070515 / 140737488355328))"
  by (simp only: calculate_cloud_run_cost_def ebind_Inr fl_mul_fi_def fl_mul_if_def fl_div_fi_def Let_def
        truediv_189 price_20 mul_190 truediv_191 conv_3 mul_192 price_25 mul_193 conv_155 mul_194 conv_29 div_195 price_32 mul_196 price_34 conv_35 mul_36 add_197 add_198 add_199)

lemma truediv_201: "int_truediv (100000) 1000000 = Inr (Finite (3602879701896397 / 36028797018963968))"
proof -
  have r: "fl_round (of_int (100000) / of_int 1000000) = Finite (3602879701896397 / 36028797018963968)"
    by (rule fl_round_cert[where k = "- 4" and n = 7205759403792794], simp_all)
  have "int_truediv (100000) 1000000 = Inr (fl_round (of_int (100000) / of_int 1000000))"
    by (rule int_truediv_ok) simp_all
  then show ?thesis by (simp only: r)
qed

lemma mul_202: "fl_mul (Finite (3602879701896397 / 36028797018963968)) (Finite (3602879701896397 / 9007199254740992)) = Finite (1441151880758559 / 36028797018963968)"
  by (simp only: fl_mul.simps) (rule fl_round_cert[where k = "- 5" and n = 5764607523034236], simp_all)

lemma truediv_203: "int_truediv (100000 * 1500) 1000 = Inr (Finite 150000)"
proof -
  have r: "fl_round (of_int (100000 * 1500) / of_int 1000) = Finite 150000"
    by (rule fl_round_cert[where k = 17 and n = 5153960755200000], simp_all)
  have "int_truediv (100000 * 1500) 1000 = Inr (fl_round (of_int (100000 * 1500) / of_int 1000))"
    by (rule int_truediv_ok) simp_all
  then show ?thesis by (simp only: r)
qed

lemma mul_204: "fl_mul (Finite 150000) (Finite 1) = Finite 150000"
  by (simp only: fl_mul.simps) (rule fl_round_cert[where k = 17 and n = 5153960755200000], simp_all)

lemma mul_205: "fl_mul (Finite 150000) (Finite (1770887431076117 / 73786976294838206464)) = Finite (8106479329266893 / 2251799813685248)"
  by (simp only: fl_mul.simps) (rule fl_round_cert[where k = 1 and n = 8106479329266893], simp_all)

lemma conv_206: "fl_of_int 4096 = Inr (Finite 4096)"
  using fl_of_int_small[of 4096] by simp

lemma mul_207: "fl_mul (Finite 150000) (Finite 4096) = Finite 614400000"
  by (simp only: fl_mul.simps) (rule fl_round_cert[where k = 29 and n = 5153960755200000], simp_all)

lemma div_208: "fl_div (Finite 614400000) (Finite 1024) = Inr (Finite 600000)"
proof -
  have r: "fl_round (614400000 / 1024) = Finite 600000"
    by (rule fl_round_cert[where k = 19 and n = 5153960755200000], simp_all)
  have "fl_div (Finite 614400000) (Finite 1024) = Inr (fl_round (614400000 / 1024))" by simp
  then show ?thesis by (simp only: r)
qed

lemma mul_209: "fl_mul (Finite 600000) (Finite (5902958103587057 / 2361183241434822606848)) = Finite (6755399441055745 / 4503599627370496)"
  by (simp only: fl_mul.simps) (rule fl_round_cert[where k = 0 and n = 6755399441055745], simp_all)

lemma add_210: "fl_add (Finite (1441151880758559 / 36028797018963968)) (Finite (8106479329266893 / 2251799813685248)) = Finite (8196551321814303 / 2251799813685248)"
  by (simp only: fl_add.simps) (rule fl_round_cert[where k = 1 and n = 8196551321814303], simp_all)

lemma add_211: "fl_add (Finite (8196551321814303 / 2251799813685248)) (Finite (6755399441055745 / 4503599627370496)) = Finite (361695345073193 / 70368744177664)"
  by (simp only: fl_add.simps) (rule fl_round_cert[where k = 2 and n = 5787125521171088], simp_all)

lemma add_212: "fl_add (Finite (361695345073193 / 70368744177664)) (Finite (4931441591970693 / 562949953421312)) = Finite (7825004352556237 / 562949953421312)"
  by (simp only: fl_add.simps) (rule fl_round_cert[where k = 3 and n = 7825004352556237], simp_all)

lemma run_213: "calculate_cloud_run_cost 100000 1500 4096 1 = Inr (Finite (7825004352556237 / 562949953421312))"
  by (simp only: calculate_cloud_run_cost_def ebind_Inr fl_mul_fi_def fl_mul_if_def fl_div_fi_def Let_def
        truediv_201 price_20 mul_202 truediv_203 conv_3 mul_204 price_25 mul_205 conv_206 mul_207 conv_29 div_208 price_32 mul_209 price_34 mul_145 add_210 add_211 add_212)

lemma conv_214: "fl_of_int 500 = Inr (Finite 500)"
  using fl_of_int_small[of 500] by simp

lemma mul_215: "fl_mul (Finite 500) (Finite (6124895493223875 / 36028797018963968)) = Finite 85"
  by (simp only: fl_mul.simps) (rule fl_round_cert[where k = 6 and n = 5981343255101440], simp_all)

lemma mul_216: "fl_mul (Finite 500) (Finite (1080863910568919 / 9007199254740992)) = Finite 60"
  by (simp only: fl_mul.simps) (rule fl_round_cert[where k = 5 and n = 8444249301319680], simp_all)

lemma costs_enterprise:
  "scenario_costs ''enterprise'' (snd (scenarios ! 3)) = Inr
     [(''gke'', PyFloat (Finite (5125131560319713 / 4398046511104))),
      (''cloud_sql'', PyFloat (Finite (6996060546143355 / 8796093022208))),
      (''cloud_run_web'', PyFloat (Finite (3117335367070515 / 140737488355328))),
      (''cloud_run_worker'', PyFloat (Finite (7825004352556237 / 562949953421312))),
      (''storage'', PyFloat (Finite 85)),
      (''load_balancer'', PyFloat (Finite 18)),
      (''egress'', PyFloat (Finite 60)),
      (''monitoring'', PyFloat (Finite 25)),
      (''security'', PyInt 100),
      (''support'', PyInt 200)]"
  by (simp add: scenario_costs_def scenarios_def Let_def fl_mul_if_def
        gke_181 sql_188 run_200 run_213 price_54 conv_214 mul_215 price_58 price_60 mul_216 price_167
        del: fl_mul.simps fl_add.simps)

lemma add_217: "fl_add (Finite 0) (Finite (5125131560319713 / 4398046511104)) = Finite (5125131560319713 / 4398046511104)"
  by (simp only: fl_add.simps) (rule fl_round_cert[where k = 10 and n = 5125131560319713], simp_all)

lemma add_218: "fl_add (Finite (5125131560319713 / 4398046511104)) (Finite (6996060546143355 / 8796093022208)) = Finite (4311580916695695 / 2199023255552)"
  by (simp only: fl_add.simps) (rule fl_round_cert[where k = 10 and n = 8623161833391390], simp_all)

lemma add_219: "fl_add (Finite (4311580916695695 / 2199023255552)) (Finite (3117335367070515 / 140737488355328)) = Finite (1090072320451543 / 549755813888)"
  by (simp only: fl_add.simps) (rule fl_round_cert[where k = 10 and n = 8720578563612344], simp_all)

lemma add_220: "fl_add (Finite (1090072320451543 / 549755813888)) (Finite (7825004352556237 / 562949953421312)) = Finite (4390855705058345 / 2199023255552)"
  by (simp only: fl_add.simps) (rule fl_round_cert[where k = 10 and n = 8781711410116690], simp_all)

lemma add_221: "fl_add (Finite (4390855705058345 / 2199023255552)) (Finite 85) = Finite (4577772681780265 / 2199023255552)"
  by (simp only: fl_add.simps) (rule fl_round_cert[where k = 11 and n = 4577772681780265], simp_all)

lemma add_222: "fl_add (Finite (4577772681780265 / 2199023255552)) (Finite 18) = Finite (4617355100380201 / 2199023255552)"
  by (simp only: fl_add.simps) (rule fl_round_cert[where k = 11 and n = 4617355100380201], simp_all)

lemma add_223: "fl_add (Finite (4617355100380201 / 2199023255552)) (Finite 60) = Finite (4749296495713321 / 2199023255552)"
  by (simp only: fl_add.simps) (rule fl_round_cert[where k = 11 and n = 4749296495713321], simp_all)

lemma add_224: "fl_add (Finite (4749296495713321 / 2199023255552)) (Finite 25) = Finite (4804272077102121 / 2199023255552)"
  by (simp only: fl_add.simps) (rule fl_round_cert[where k = 11 and n = 4804272077102121], simp_all)

lemma add_225: "fl_add (Finite (4804272077102121 / 2199023255552)) (Finite 100) = Finite (5024174402657321 / 2199023255552)"
  by (simp only: fl_add.simps) (rule fl_round_cert[where k = 11 and n = 5024174402657321], simp_all)

lemma add_226: "fl_add (Finite (5024174402657321 / 2199023255552)) (Finite 200) = Finite (5463979053767721 / 2199023255552)"
  by (simp only: fl_add.simps) (rule fl_round_cert[where k = 11 and n = 5463979053767721], simp_all)

lemma sum_enterprise:
  "py_sum
     [PyFloat (Finite (5125131560319713 / 4398046511104)),
      PyFloat (Finite (6996060546143355 / 8796093022208)),
      PyFloat (Finite (3117335367070515 / 140737488355328)),
      PyFloat (Finite (7825004352556237 / 562949953421312)),
      PyFloat (Finite 85),
      PyFloat (Finite 18),
      PyFloat (Finite 60),
      PyFloat (Finite 25),
      PyInt 100,
      PyInt 200] = Inr (PyFloat (Finite (5463979053767721 / 2199023255552)))"
  by (simp only: py_sum_def sum_from.simps py_add.simps ebind_Inr
        conv_35 add_217 add_218 add_219 add_220 add_221 add_222 add_223 add_224 conv_112 add_225 conv_163 add_226)

lemma mul_227: "fl_mul (Finite (5463979053767721 / 2199023255552)) (Finite 12) = Finite (4097984290325791 / 137438953472)"
  by (simp only: fl_mul.simps) (rule fl_round_cert[where k = 14 and n = 8195968580651582], simp_all)

lemma lit_4_854: "fl_round (4854 / 1000) = Finite (5465118147814097 / 1125899906842624)"
  by (rule fl_round_cert[where k = 2 and n = 5465118147814097], simp_all)

lemma lit_18_468: "fl_round (18468 / 1000) = Finite (5198279869892395 / 281474976710656)"
  by (rule fl_round_cert[where k = 4 and n = 5198279869892395], simp_all)

lemma mul_228: "fl_mul (Finite 15) (Finite 2) = Finite 30"
  by (simp only: fl_mul.simps) (rule fl_round_cert[where k = 4 and n = 8444249301319680], simp_all)

lemma add_229: "fl_add (Finite 30) (Finite (1914029841632461 / 562949953421312)) = Finite (4700632111067955 / 140737488355328)"
  by (simp only: fl_add.simps) (rule fl_round_cert[where k = 5 and n = 4700632111067955], simp_all)

lemma add_230: "fl_add (Finite (4700632111067955 / 140737488355328)) (Finite (1224979098644775 / 18014398509481984)) = Finite (4710202260276117 / 140737488355328)"
  by (simp only: fl_add.simps) (rule fl_round_cert[where k = 5 and n = 4710202260276117], simp_all)

lemma demo_sql_ha_value: "calculate_cloud_sql_cost ''db-f1-micro'' 20 True 5 = Inr (Finite (4710202260276117 / 140737488355328))"
  by (simp only: calculate_cloud_sql_cost_def ebind_Inr fl_mul_fi_def fl_mul_if_def Let_def if_True if_False
        price_7 conv_77 mul_228 price_9 conv_10 mul_11 conv_12 mul_13 lit_14 mul_15 add_229 add_230)

lemma non_ha_plus_base: "fl_add (Finite (5198279869892395 / 281474976710656)) (Finite 15) = Finite (2355101130138059 / 70368744177664)"
  by (simp only: fl_add.simps) (rule fl_round_cert[where k = 5 and n = 4710202260276118], simp_all)


section \<open>Evaluating the calculator\<close>

lemma price_cloud_run:
  "price ''cloud_run'' ''requests'' = Inr (fl_round (40 / 100))"
  "price ''cloud_run'' ''cpu_time'' = Inr (fl_round (24 / 1000000))"
  "price ''cloud_run'' ''memory_time'' = Inr (fl_round (25 / 10000000))"
  "price ''cloud_run'' ''min_instances'' = Inr (fl_round (876 / 100))"
  by (simp_all add: price_def subscript_def pricing_def)

lemma price_small: "price ''gke'' ''e2-small'' = Inr (fl_round (2427 / 100))"
  by (simp add: price_def subscript_def pricing_def)

lemma price_micro: "price ''cloud_sql'' ''db-f1-micro'' = Inr (Finite 15)"
  by (simp add: price_def subscript_def pricing_def sql_prices)

lemma price_ssd: "price ''storage'' ''cloud_sql_ssd'' = Inr (fl_round (17 / 100))"
  by (simp add: price_def subscript_def pricing_def)

lemma price_gke_finite:
  assumes "price ''gke'' machine_type = Inr unit_price"
  shows "is_finite unit_price"
  using assms
  by (auto simp: price_def subscript_def pricing_def fl_round_finite split: if_splits)

lemma price_cloud_sql_cases:
  assumes "price ''cloud_sql'' machine_type = Inr unit_price"
  shows "unit_price \<in> {Finite 15, Finite 50, Finite 95, Finite 190, Finite 380}"
  using assms
  by (auto simp: price_def subscript_def pricing_def sql_prices split: if_splits)

lemma map_of_scenarios:
  "map_of scenarios ''demo'' = Some (snd (scenarios ! 0))"
  "map_of scenarios ''staging'' = Some (snd (scenarios ! 1))"
  "map_of scenarios ''production'' = Some (snd (scenarios ! 2))"
  "map_of scenarios ''enterprise'' = Some (snd (scenarios ! 3))"
  by (simp_all add: scenarios_def)

lemma map_of_scenarios_None:
  "scenario \<notin> {''demo'', ''staging'', ''production'', ''enterprise''} \<Longrightarrow> map_of scenarios scenario = None"
  by (simp add: scenarios_def)

lemmas run_simps =
  calculate_gke_cost_def calculate_cloud_sql_cost_def calculate_cloud_run_cost_def
  price_def subscript_def pricing_def fl_mul_fi_def fl_mul_if_def fl_div_fi_def
  fl_of_int_small int_truediv_ok Let_def

lemma scenario_costs_ok:
  "\<exists>costs. scenario_costs ''demo'' (snd (scenarios ! 0)) = Inr costs \<and> (\<exists>t. py_sum (map snd costs) = Inr (PyFloat t))"
  "\<exists>costs. scenario_costs ''staging'' (snd (scenarios ! 1)) = Inr costs \<and> (\<exists>t. py_sum (map snd costs) = Inr (PyFloat t))"
  "\<exists>costs. scenario_costs ''production'' (snd (scenarios ! 2)) = Inr costs \<and> (\<exists>t. py_sum (map snd costs) = Inr (PyFloat t))"
  "\<exists>costs. scenario_costs ''enterprise'' (snd (scenarios ! 3)) = Inr costs \<and> (\<exists>t. py_sum (map snd costs) = Inr (PyFloat t))"
  by (simp_all add: scenario_costs_def scenarios_def run_simps py_sum_def)

lemma scenario_ok:
  "\<exists>r. calculate_scenario_cost ''demo'' = Inr r"
  "\<exists>r. calculate_scenario_cost ''staging'' = Inr r"
  "\<exists>r. calculate_scenario_cost ''production'' = Inr r"
  "\<exists>r. calculate_scenario_cost ''enterprise'' = Inr r"
  using scenario_costs_ok
  by (auto simp add: calculate_scenario_cost_def map_of_scenarios fl_of_int_12)

lemma result_fields:
  assumes "calculate_scenario_cost scenario = Inr r"
  shows "py_sum (map snd (cost_breakdown r)) = Inr (monthly_cost r)"
    and "py_mul (monthly_cost r) (PyInt 12) = Inr (annual_cost r)"
    and "r_scenario r = scenario"
    and "\<exists>cfg. map_of scenarios scenario = Some cfg \<and> scenario_costs scenario cfg = Inr (cost_breakdown r)"
  using assms
  by (auto simp: calculate_scenario_cost_def ebind_eq_Inr split: option.splits)

lemma scenario_costs_entries:
  assumes "scenario_costs scenario cfg = Inr costs"
    and "c_gke_nodes (cfg_components cfg) = (machine_type, node_count, preemptible)"
    and "c_cloud_sql (cfg_components cfg) = (sql_machine, storage, ha, backup)"
  shows "\<exists>g q. calculate_gke_cost machine_type node_count preemptible = Inr g \<and>
               calculate_cloud_sql_cost sql_machine storage ha backup = Inr q \<and>
               subscript costs ''gke'' = Inr (PyFloat g) \<and>
               subscript costs ''cloud_sql'' = Inr (PyFloat q)"
  using assms
  by (auto simp: scenario_costs_def Let_def ebind_eq_Inr subscript_def split: if_splits)

lemma cloud_sql_unfold:
  assumes "price ''cloud_sql'' machine_type = Inr (Finite v)" and "fl_round (v * 2) = Finite (2 * v)"
  shows "calculate_cloud_sql_cost machine_type storage_gb ha backup_storage =
       ebind (fl_mul_if storage_gb (fl_round (17 / 100))) (\<lambda>storage_cost.
       ebind (fl_mul_if backup_storage (fl_round (17 / 100))) (\<lambda>backup_base.
       Inr (fl_add (fl_add (Finite (if ha then 2 * v else v)) storage_cost)
                   (fl_mul backup_base (fl_round (8 / 100))))))"
  by (cases ha) (simp_all add: calculate_cloud_sql_cost_def assms price_ssd fl_mul_fi_def fl_of_int_2 Let_def)

lemma cloud_sql_general:
  assumes "price ''cloud_sql'' machine_type = Inr unit_price"
  shows "\<exists>v. unit_price = Finite v \<and>
     calculate_cloud_sql_cost machine_type storage_gb ha backup_storage =
       ebind (fl_mul_if storage_gb (fl_round (17 / 100))) (\<lambda>storage_cost.
       ebind (fl_mul_if backup_storage (fl_round (17 / 100))) (\<lambda>backup_base.
       Inr (fl_add (fl_add (Finite (if ha then 2 * v else v)) storage_cost)
                   (fl_mul backup_base (fl_round (8 / 100))))))"
proof -
  from price_cloud_sql_cases[OF assms] obtain v where v: "unit_price = Finite v"
    and d: "fl_round (v * 2) = Finite (2 * v)"
    by (auto simp: doubled_prices sql_prices)
  show ?thesis using cloud_sql_unfold[OF assms[unfolded v] d] v by blast
qed

lemma cloud_run_no_requests:
  assumes "fl_of_int avg_memory_mb = Inr fm"
  shows "calculate_cloud_run_cost 0 avg_cpu_time_ms avg_memory_mb min_instances
           = fl_mul_if min_instances (fl_round (876 / 100))"
proof -
  have fm: "is_finite fm" by (rule fl_of_int_finite[OF assms])
  have d1: "int_truediv 0 1000000 = Inr (Finite 0)" by (simp add: int_truediv_def)
  have d2: "int_truediv 0 1000 = Inr (Finite 0)" by (simp add: int_truediv_def)
  have one: "fl_of_int 1 = Inr (Finite 1)" using fl_of_int_small[of 1] by simp
  have k: "fl_of_int 1024 = Inr (Finite 1024)" using fl_of_int_small[of 1024] by simp
  show ?thesis
  proof (cases "fl_of_int min_instances")
    case (Inl e)
    then show ?thesis
      by (simp add: calculate_cloud_run_cost_def price_cloud_run d1 d2 fl_mul_fi_def fl_div_fi_def
          fl_mul_if_def one k assms fl_mul_zero_left fl_round_finite fm Let_def del: fl_round_0)
  next
    case (Inr x)
    have x: "is_finite x" by (rule fl_of_int_finite[OF Inr])
    show ?thesis
      by (simp add: calculate_cloud_run_cost_def price_cloud_run d1 d2 fl_mul_fi_def fl_div_fi_def
          fl_mul_if_def one k assms Inr fl_mul_zero_left fl_round_finite fm Let_def fl_add_zero_mul x)
  qed
qed

lemma one_instance_value:
  "calculate_cloud_run_cost 0 0 0 1 = Inr (Finite (4931441591970693 / 562949953421312))"
proof -
  have "fl_mul (Finite 1) (Finite (4931441591970693 / 562949953421312)) = Finite (4931441591970693 / 562949953421312)"
    using fl_round_idem[OF lit_8_76] by simp
  then show ?thesis
    by (simp only: cloud_run_no_requests[OF fl_of_int_0] fl_mul_if_def fl_of_int_args ebind_Inr lit_8_76)
qed

lemma fl_mul_fifth_not_NaN: "fl_mul (fl_round q) (fl_round (2 / 10)) \<noteq> NaN"
  by (cases "fl_round q") (simp_all only: lit_0_2 fl_mul.simps fl_round_not_NaN inf_times_def, simp_all)

subsection \<open>The results of the four scenarios\<close>

lemma result_demo:
  "calculate_scenario_cost ''demo'' = Inr
     \<lparr>r_scenario = ''demo'',
       r_description = cfg_description (snd (scenarios ! 0)),
       monthly_cost = PyFloat (Finite (3946683793762419 / 70368744177664)),
       annual_cost = PyFloat (Finite (1480006422660907 / 2199023255552)),
       cost_breakdown =
     [(''gke'', PyFloat (Finite (5465118147814097 / 1125899906842624))),
      (''cloud_sql'', PyFloat (Finite (5198279869892395 / 281474976710656))),
      (''cloud_run_web'', PyFloat (Finite (3837066882519663 / 72057594037927936))),
      (''cloud_run_worker'', PyFloat (Finite (6052837899185947 / 576460752303423488))),
      (''storage'', PyFloat (Finite (17 / 2))),
      (''load_balancer'', PyFloat (Finite 18)),
      (''egress'', PyFloat (Finite (5404319552844595 / 4503599627370496))),
      (''monitoring'', PyFloat (Finite 5))],
       usage_stats = cfg_usage (snd (scenarios ! 0))\<rparr>"
  by (simp only: calculate_scenario_cost_def map_of_scenarios option.case ebind_Inr list.map snd_conv
        py_mul.simps costs_demo sum_demo conv_73 mul_74)

lemma result_staging:
  "calculate_scenario_cost ''staging'' = Inr
     \<lparr>r_scenario = ''staging'',
       r_description = cfg_description (snd (scenarios ! 1)),
       monthly_cost = PyFloat (Finite (4297493973720629 / 17592186044416)),
       annual_cost = PyFloat (Finite (402890060036309 / 137438953472)),
       cost_breakdown =
     [(''gke'', PyFloat (Finite (3416402529825587 / 35184372088832))),
      (''cloud_sql'', PyFloat (Finite (7297520246200467 / 70368744177664))),
      (''cloud_run_web'', PyFloat (Finite (7183241405655941 / 18014398509481984))),
      (''cloud_run_worker'', PyFloat (Finite (734086739261391 / 9007199254740992))),
      (''storage'', PyFloat (Finite 17)),
      (''load_balancer'', PyFloat (Finite 18)),
      (''egress'', PyFloat (Finite 3)),
      (''monitoring'', PyFloat (Finite 5))],
       usage_stats = cfg_usage (snd (scenarios ! 1))\<rparr>"
  by (simp only: calculate_scenario_cost_def map_of_scenarios option.case ebind_Inr list.map snd_conv
        py_mul.simps costs_staging sum_staging conv_73 mul_124)

lemma result_production:
  "calculate_scenario_cost ''production'' = Inr
     \<lparr>r_scenario = ''production'',
       r_description = cfg_description (snd (scenarios ! 2)),
       monthly_cost = PyFloat (Finite (439171332412801 / 549755813888)),
       annual_cost = PyFloat (Finite (1317513997238403 / 137438953472)),
       cost_breakdown =
     [(''gke'', PyFloat (Finite (5125131560319713 / 17592186044416))),
      (''cloud_sql'', PyFloat (Finite (6996060546143355 / 17592186044416))),
      (''cloud_run_web'', PyFloat (Finite (6468294964810875 / 562949953421312))),
      (''cloud_run_worker'', PyFloat (Finite (657807020572803 / 70368744177664))),
      (''storage'', PyFloat (Finite 34)),
      (''load_balancer'', PyFloat (Finite 18)),
      (''egress'', PyFloat (Finite 12)),
      (''monitoring'', PyFloat (Finite 25))],
       usage_stats = cfg_usage (snd (scenarios ! 2))\<rparr>"
  by (simp only: calculate_scenario_cost_def map_of_scenarios option.case ebind_Inr list.map snd_conv
        py_mul.simps costs_production sum_production conv_73 mul_176)

lemma result_enterprise:
  "calculate_scenario_cost ''enterprise'' = Inr
     \<lparr>r_scenario = ''enterprise'',
       r_description = cfg_description (snd (scenarios ! 3)),
       monthly_cost = PyFloat (Finite (5463979053767721 / 2199023255552)),
       annual_cost = PyFloat (Finite (4097984290325791 / 137438953472)),
       cost_breakdown =
     [(''gke'', PyFloat (Finite (5125131560319713 / 4398046511104))),
      (''cloud_sql'', PyFloat (Finite (6996060546143355 / 8796093022208))),
      (''cloud_run_web'', PyFloat (Finite (3117335367070515 / 140737488355328))),
      (''cloud_run_worker'', PyFloat (Finite (7825004352556237 / 562949953421312))),
      (''storage'', PyFloat (Finite 85)),
      (''load_balancer'', PyFloat (Finite 18)),
      (''egress'', PyFloat (Finite 60)),
      (''monitoring'', PyFloat (Finite 25)),
      (''security'', PyInt 100),
      (''support'', PyInt 200)],
       usage_stats = cfg_usage (snd (scenarios ! 3))\<rparr>"
  by (simp only: calculate_scenario_cost_def map_of_scenarios option.case ebind_Inr list.map snd_conv
        py_mul.simps costs_enterprise sum_enterprise conv_73 mul_227)


lemma returns_only_for_known:
  assumes "calculate_scenario_cost scenario = Inr r"
  shows "scenario \<in> {''demo'', ''staging'', ''production'', ''enterprise''}"
proof (rule ccontr)
  assume "scenario \<notin> {''demo'', ''staging'', ''production'', ''enterprise''}"
  then have "map_of scenarios scenario = None" by (rule map_of_scenarios_None)
  then show False using assms by (simp add: calculate_scenario_cost_def)
qed

lemma result_finite:
  assumes "calculate_scenario_cost scenario = Inr r"
  shows "finite_num (monthly_cost r) \<and> finite_num (annual_cost r)"
proof -
  from returns_only_for_known[OF assms]
  consider "scenario = ''demo''" | "scenario = ''staging''" | "scenario = ''production''" | "scenario = ''enterprise''"
    by auto
  then show ?thesis
  proof cases
    case 1 then show ?thesis using assms by (auto simp: result_demo)
  next
    case 2 then show ?thesis using assms by (auto simp: result_staging)
  next
    case 3 then show ?thesis using assms by (auto simp: result_production)
  next
    case 4 then show ?thesis using assms by (auto simp: result_enterprise)
  qed
qed

subsection \<open>Dict updates in a loop\<close>

lemma keys_dict_set_present: "k \<in> fst ` set d \<Longrightarrow> map fst (dict_set d k v) = map fst d"
  by (induction d) force+

lemma keys_dict_set_new: "k \<notin> fst ` set d \<Longrightarrow> map fst (dict_set d k v) = map fst d @ [k]"
  by (induction d) auto

lemma keys_dict_set:
  "map fst (dict_set d k v) = (if k \<in> set (map fst d) then map fst d else map fst d @ [k])"
  by (simp add: keys_dict_set_present keys_dict_set_new)

lemma map_of_dict_set: "map_of (dict_set d k v) = (map_of d)(k \<mapsto> v)"
  by (induction d) (auto simp: fun_eq_iff)

lemma remdups_present: "n \<in> set zs \<Longrightarrow> remdups (ys @ n # zs) = remdups (ys @ zs)"
  by (induction ys) auto

lemma compare_loop_keys:
  assumes "compare_loop acc names = Inr results" and "distinct (map fst acc)"
  shows "map fst results = rev (remdups (rev (map fst acc @ names)))"
  using assms
proof (induction names arbitrary: acc)
  case Nil
  then show ?case by (simp add: distinct_remdups_id)
next
  case (Cons n ns)
  from Cons.prems(1) obtain r where r: "calculate_scenario_cost n = Inr r"
    and l: "compare_loop (dict_set acc n r) ns = Inr results"
    by (auto simp: ebind_eq_Inr)
  have d: "distinct (map fst (dict_set acc n r))"
    using Cons.prems(2) by (simp add: keys_dict_set)
  from Cons.IH[OF l d]
  have "map fst results = rev (remdups (rev (map fst (dict_set acc n r) @ ns)))" .
  then show ?case
    using remdups_present[of n "rev (map fst acc)" "rev ns"]
    by (simp add: keys_dict_set)
qed

lemma compare_loop_values:
  assumes "compare_loop acc names = Inr results"
  shows "(\<forall>name \<in> set names. \<exists>r. calculate_scenario_cost name = Inr r \<and> map_of results name = Some r) \<and>
         (\<forall>name. name \<notin> set names \<longrightarrow> map_of results name = map_of acc name)"
  using assms
proof (induction names arbitrary: acc)
  case Nil
  then show ?case by simp
next
  case (Cons n ns)
  from Cons.prems(1) obtain r where r: "calculate_scenario_cost n = Inr r"
    and l: "compare_loop (dict_set acc n r) ns = Inr results"
    by (auto simp: ebind_eq_Inr)
  from Cons.IH[OF l]
  have a: "\<forall>name \<in> set ns. \<exists>r. calculate_scenario_cost name = Inr r \<and> map_of results name = Some r"
    and b: "\<forall>name. name \<notin> set ns \<longrightarrow> map_of results name = map_of (dict_set acc n r) name"
    by blast+
  have "map_of results n = Some r"
  proof (cases "n \<in> set ns")
    case True
    then show ?thesis using a r by auto
  next
    case False
    then show ?thesis using b by (simp add: map_of_dict_set)
  qed
  then show ?case using a b r by (auto simp: map_of_dict_set)
qed

section \<open>Scenario results\<close>

text \<open>
  C1. For each of \<^verbatim>\<open>demo\<close>, \<^verbatim>\<open>staging\<close>, \<^verbatim>\<open>production\<close> and \<^verbatim>\<open>enterprise\<close>,
  \<^verbatim>\<open>calculate_scenario_cost\<close> returns a result, and the monthly cost of that
  result is the sum of the values of its cost breakdown, as \<^verbatim>\<open>sum\<close> computes
  it: nothing is added to or taken from the total besides the line items.
  The float sum differs from the exact sum of the items by less than a cent.
\<close>

theorem monthly_total_is_sum:
  "(\<exists>r. calculate_scenario_cost ''demo'' = Inr r \<and>
        py_sum (map snd (cost_breakdown r)) = Inr (monthly_cost r) \<and>
        within_cent (monthly_cost r) (map snd (cost_breakdown r))) \<and>
   (\<exists>r. calculate_scenario_cost ''staging'' = Inr r \<and>
        py_sum (map snd (cost_breakdown r)) = Inr (monthly_cost r) \<and>
        within_cent (monthly_cost r) (map snd (cost_breakdown r))) \<and>
   (\<exists>r. calculate_scenario_cost ''production'' = Inr r \<and>
        py_sum (map snd (cost_breakdown r)) = Inr (monthly_cost r) \<and>
        within_cent (monthly_cost r) (map snd (cost_breakdown r))) \<and>
   (\<exists>r. calculate_scenario_cost ''enterprise'' = Inr r \<and>
        py_sum (map snd (cost_breakdown r)) = Inr (monthly_cost r) \<and>
        within_cent (monthly_cost r) (map snd (cost_breakdown r)))"
proof -
  have demo: "\<exists>r. calculate_scenario_cost ''demo'' = Inr r \<and>
          py_sum (map snd (cost_breakdown r)) = Inr (monthly_cost r) \<and>
          within_cent (monthly_cost r) (map snd (cost_breakdown r))"
    by (simp add: result_demo sum_demo within_cent_def)
  have staging: "\<exists>r. calculate_scenario_cost ''staging'' = Inr r \<and>
          py_sum (map snd (cost_breakdown r)) = Inr (monthly_cost r) \<and>
          within_cent (monthly_cost r) (map snd (cost_breakdown r))"
    by (simp add: result_staging sum_staging within_cent_def)
  have production: "\<exists>r. calculate_scenario_cost ''production'' = Inr r \<and>
          py_sum (map snd (cost_breakdown r)) = Inr (monthly_cost r) \<and>
          within_cent (monthly_cost r) (map snd (cost_breakdown r))"
    by (simp add: result_production sum_production within_cent_def)
  have enterprise: "\<exists>r. calculate_scenario_cost ''enterprise'' = Inr r \<and>
          py_sum (map snd (cost_breakdown r)) = Inr (monthly_cost r) \<and>
          within_cent (monthly_cost r) (map snd (cost_breakdown r))"
    by (simp add: result_enterprise sum_enterprise within_cent_def)
  show ?thesis using demo staging production enterprise by blast
qed

text \<open>
  C2. Whenever \<^verbatim>\<open>calculate_scenario_cost\<close> returns a result, its annual cost
  is the product of its monthly cost and the int \<open>12\<close>; both are finite
  floats, so the equality is the one that Python's \<^verbatim>\<open>==\<close> tests.  For the
  production scenario they are the floats \<open>798.848\<close> and \<open>9586.176\<close>.
\<close>

theorem annual_is_twelve_months:
  assumes "calculate_scenario_cost scenario = Inr r"
  shows "py_mul (monthly_cost r) (PyInt 12) = Inr (annual_cost r) \<and>
         finite_num (monthly_cost r) \<and> finite_num (annual_cost r)"
  using result_fields(2)[OF assms] result_finite[OF assms] by simp

theorem annual_is_twelve_months_witness:
  "\<exists>r. calculate_scenario_cost ''production'' = Inr r \<and>
       py_mul (monthly_cost r) (PyInt 12) = Inr (annual_cost r) \<and>
       monthly_cost r = PyFloat (fl_round (798848 / 1000)) \<and>
       annual_cost r = PyFloat (fl_round (9586176 / 1000))"
proof -
  have m: "fl_round (798848 / 1000) = Finite (439171332412801 / 549755813888)"
    by (rule fl_round_cert[where k = 9 and n = 7026741318604816], simp_all)
  have a: "fl_round (9586176 / 1000) = Finite (1317513997238403 / 137438953472)"
    by (rule fl_round_cert[where k = 13 and n = 5270055988953612], simp_all)
  from scenario_ok(3) obtain r where r: "calculate_scenario_cost ''production'' = Inr r" by blast
  from annual_is_twelve_months[OF r] r show ?thesis
    by (simp only: m a) (auto simp: result_production)
qed

text \<open>
  C3. A name other than \<^verbatim>\<open>demo\<close>, \<^verbatim>\<open>staging\<close>, \<^verbatim>\<open>production\<close> and \<^verbatim>\<open>enterprise\<close>
  (compared as written, so \<^verbatim>\<open>Demo\<close> is unknown) makes \<^verbatim>\<open>calculate_scenario_cost\<close>
  raise \<^verbatim>\<open>ValueError\<close> with the name in its message.  The result is the error
  alone: no breakdown and no result record is returned.
\<close>

theorem unknown_scenario_raises:
  "scenario \<notin> {''demo'', ''staging'', ''production'', ''enterprise''} \<Longrightarrow>
     calculate_scenario_cost scenario = Inl (ValueError (''Unknown scenario: '' @ scenario))"
  by (simp add: calculate_scenario_cost_def map_of_scenarios_None)

theorem unknown_scenario_raises_witness:
  "''Demo'' \<notin> {''demo'', ''staging'', ''production'', ''enterprise''} \<and>
   calculate_scenario_cost ''Demo'' = Inl (ValueError ''Unknown scenario: Demo'')"
proof -
  have h: "''Demo'' \<notin> {''demo'', ''staging'', ''production'', ''enterprise''}" by simp
  show ?thesis using h unknown_scenario_raises [OF h] by simp
qed

section \<open>Cloud Run without requests\<close>

text \<open>
  C4, as the code has it.  With no requests, and an average memory that
  converts to a float, \<^verbatim>\<open>calculate_cloud_run_cost\<close> is the product
  \<^verbatim>\<open>min_instances * 8.76\<close> alone, for every CPU time and every number of
  instances: the request, CPU and memory terms are zero and leave the product
  unchanged.  Where the product raises \<^verbatim>\<open>OverflowError\<close>, so does the
  function.
\<close>

theorem no_requests_only_instances:
  assumes "fl_of_int avg_memory_mb = Inr fm"
  shows "calculate_cloud_run_cost 0 avg_cpu_time_ms avg_memory_mb min_instances
           = fl_mul_if min_instances (fl_round (876 / 100))"
  by (rule cloud_run_no_requests[OF assms])

theorem no_requests_only_instances_witness:
  "fl_of_int 1024 = Inr (Finite 1024) \<and>
   calculate_cloud_run_cost 0 500 1024 1 = fl_mul_if 1 (fl_round (876 / 100)) \<and>
   fl_mul_if 1 (fl_round (876 / 100)) = Inr (fl_round (876 / 100))"
proof -
  have h: "fl_of_int 1024 = Inr (Finite 1024)" using fl_of_int_small[of 1024] by simp
  have "fl_mul (Finite 1) (Finite (4931441591970693 / 562949953421312)) = Finite (4931441591970693 / 562949953421312)"
    using fl_round_idem[OF lit_8_76] by simp
  then have v: "fl_mul_if 1 (fl_round (876 / 100)) = Inr (fl_round (876 / 100))"
    by (simp only: fl_mul_if_def fl_of_int_args ebind_Inr lit_8_76)
  show ?thesis using h v no_requests_only_instances[OF h, of 500 1] by simp
qed

text \<open>
  The claim C4 as stated, for every non-negative average memory, fails: the
  memory term multiplies the float \<open>0.0\<close> by \<^verbatim>\<open>avg_memory_mb\<close>, and an int from
  \<open>2\<^sup>1\<^sup>0\<^sup>2\<^sup>4\<close> on does not convert.  The function raises where
  \<^verbatim>\<open>0 * 8.76\<close> is \<open>0.0\<close>.
\<close>

theorem no_requests_overflow_counterexample:
  "calculate_cloud_run_cost 0 0 (2 ^ 1024) 0 = Inl OverflowError \<and>
   fl_mul_if 0 (fl_round (876 / 100)) = Inr (Finite 0)"
proof -
  have d1: "int_truediv 0 1000000 = Inr (Finite 0)" by (simp add: int_truediv_def)
  have d2: "int_truediv 0 1000 = Inr (Finite 0)" by (simp add: int_truediv_def)
  have a: "calculate_cloud_run_cost 0 0 (2 ^ 1024) 0 = Inl OverflowError"
    by (simp add: calculate_cloud_run_cost_def price_cloud_run d1 d2 fl_mul_fi_def
          fl_of_int_args fl_of_int_2_1024[simplified] Let_def)
  have b: "fl_mul_if 0 (fl_round (876 / 100)) = Inr (Finite 0)"
    by (simp add: fl_mul_if_def fl_of_int_0 fl_mul_zero_left fl_round_finite)
  show ?thesis using a b by simp
qed

text \<open>
  C5, as the code has it.  With no requests and no reserved instance (and an
  average memory that converts to a float) the total is zero, for every CPU
  time.
\<close>

theorem no_requests_no_instances_free:
  assumes "fl_of_int avg_memory_mb = Inr fm"
  shows "calculate_cloud_run_cost 0 avg_cpu_time_ms avg_memory_mb 0 = Inr (Finite 0)"
  by (simp add: cloud_run_no_requests[OF assms] fl_mul_if_def fl_of_int_0 fl_mul_zero_left fl_round_finite)

theorem no_requests_no_instances_free_witness:
  "fl_of_int 256 = Inr (Finite 256) \<and> calculate_cloud_run_cost 0 200 256 0 = Inr (Finite 0)"
proof -
  have h: "fl_of_int 256 = Inr (Finite 256)" using fl_of_int_small[of 256] by simp
  show ?thesis using h no_requests_no_instances_free[OF h, of 200] by simp
qed

text \<open>
  The claim C5 as stated, a total of zero whatever the other parameters, fails
  with one reserved instance: the total is the float \<open>8.76\<close>.
\<close>

theorem no_requests_nonzero_counterexample:
  "calculate_cloud_run_cost 0 0 0 1 = Inr (Finite (4931441591970693 / 562949953421312)) \<and>
   calculate_cloud_run_cost 0 0 0 1 \<noteq> Inr (Finite 0)"
  by (simp add: one_instance_value)

section \<open>Node and database costs\<close>

text \<open>
  C6. For a machine type of the price table and every node count, the cost
  without the preemptible flag is the product of the unit price and the node
  count, and the cost with the flag is that cost times the float \<open>0.2\<close>.  Both
  calls raise \<^verbatim>\<open>OverflowError\<close> together when the node count does not convert.
  No result is not-a-number, so the equalities are those of Python's \<^verbatim>\<open>==\<close>.
\<close>

theorem preemptible_is_fifth:
  assumes "price ''gke'' machine_type = Inr unit_price"
  shows "calculate_gke_cost machine_type node_count False = fl_mul_fi unit_price node_count \<and>
         calculate_gke_cost machine_type node_count True =
           ebind (calculate_gke_cost machine_type node_count False)
                 (\<lambda>cost. Inr (fl_mul cost (fl_round (2 / 10)))) \<and>
         calculate_gke_cost machine_type node_count preemptible \<noteq> Inr NaN"
proof -
  obtain p where p: "unit_price = Finite p"
    using price_gke_finite[OF assms] by (cases unit_price) simp_all
  have a: "calculate_gke_cost machine_type node_count False = fl_mul_fi unit_price node_count"
    by (simp add: calculate_gke_cost_def assms)
  have b: "calculate_gke_cost machine_type node_count True =
           ebind (calculate_gke_cost machine_type node_count False)
                 (\<lambda>cost. Inr (fl_mul cost (fl_round (2 / 10))))"
    by (cases "fl_mul_fi unit_price node_count") (simp_all add: calculate_gke_cost_def assms)
  have c: "calculate_gke_cost machine_type node_count preemptible \<noteq> Inr NaN"
  proof (cases "fl_of_int node_count")
    case (Inl e)
    then show ?thesis by (simp add: calculate_gke_cost_def assms fl_mul_fi_def)
  next
    case (Inr y)
    then obtain n where n: "y = Finite n" using fl_of_int_finite[OF Inr] by (cases y) simp_all
    show ?thesis
      using fl_mul_fifth_not_NaN[of "p * n"]
      by (simp add: calculate_gke_cost_def assms fl_mul_fi_def Inr n p)
  qed
  show ?thesis using a b c by simp
qed

theorem preemptible_is_fifth_witness:
  "price ''gke'' ''e2-small'' = Inr (fl_round (2427 / 100)) \<and>
   calculate_gke_cost ''e2-small'' 1 False = fl_mul_fi (fl_round (2427 / 100)) 1 \<and>
   calculate_gke_cost ''e2-small'' 1 True =
     ebind (calculate_gke_cost ''e2-small'' 1 False) (\<lambda>cost. Inr (fl_mul cost (fl_round (2 / 10)))) \<and>
   calculate_gke_cost ''e2-small'' 1 True = Inr (fl_round (4854 / 1000))"
  using preemptible_is_fifth [OF price_small, of 1] price_small
  by (simp only: demo_gke_value lit_4_854)

text \<open>
  C7, as the code has it.  For a machine type of the price table, the cost
  with and without high availability is the same sum of three terms, with the
  same storage and backup terms; the base term is the unit price without high
  availability and exactly twice the unit price with it.
\<close>

theorem ha_doubles_base_term:
  assumes "price ''cloud_sql'' machine_type = Inr unit_price"
  shows "\<exists>v. unit_price = Finite v \<and>
     (\<forall>ha. calculate_cloud_sql_cost machine_type storage_gb ha backup_storage =
       ebind (fl_mul_if storage_gb (fl_round (17 / 100))) (\<lambda>storage_cost.
       ebind (fl_mul_if backup_storage (fl_round (17 / 100))) (\<lambda>backup_base.
       Inr (fl_add (fl_add (Finite (if ha then 2 * v else v)) storage_cost)
                   (fl_mul backup_base (fl_round (8 / 100)))))))"
proof -
  from cloud_sql_general[OF assms, of storage_gb True backup_storage]
  obtain v where v: "unit_price = Finite v" by blast
  have "calculate_cloud_sql_cost machine_type storage_gb ha backup_storage =
       ebind (fl_mul_if storage_gb (fl_round (17 / 100))) (\<lambda>storage_cost.
       ebind (fl_mul_if backup_storage (fl_round (17 / 100))) (\<lambda>backup_base.
       Inr (fl_add (fl_add (Finite (if ha then 2 * v else v)) storage_cost)
                   (fl_mul backup_base (fl_round (8 / 100))))))" for ha
    using cloud_sql_general[OF assms, of storage_gb ha backup_storage] v by auto
  then show ?thesis using v by blast
qed

theorem ha_doubles_base_term_witness:
  "price ''cloud_sql'' ''db-f1-micro'' = Inr (Finite 15) \<and>
   calculate_cloud_sql_cost ''db-f1-micro'' 20 True 5 =
     ebind (fl_mul_if 20 (fl_round (17 / 100))) (\<lambda>storage_cost.
     ebind (fl_mul_if 5 (fl_round (17 / 100))) (\<lambda>backup_base.
     Inr (fl_add (fl_add (Finite 30) storage_cost) (fl_mul backup_base (fl_round (8 / 100))))))"
  using ha_doubles_base_term[OF price_micro, of 20 5] price_micro by auto

text \<open>
  The claim C7 as stated, that the cost with high availability is the cost
  without it plus the unit price, fails for the database of the demo scenario:
  float addition is not associative, and \<^verbatim>\<open>30.0 + s + b\<close> is
  \<open>33.467999999999996\<close> where \<^verbatim>\<open>15.0 + s + b + 15.0\<close> is \<open>33.468\<close>.
\<close>

theorem ha_plus_base_counterexample:
  "price ''cloud_sql'' ''db-f1-micro'' = Inr (Finite 15) \<and>
   calculate_cloud_sql_cost ''db-f1-micro'' 20 True 5 = Inr (Finite (4710202260276117 / 140737488355328)) \<and>
   calculate_cloud_sql_cost ''db-f1-micro'' 20 False 5 = Inr (Finite (5198279869892395 / 281474976710656)) \<and>
   fl_add (Finite (5198279869892395 / 281474976710656)) (Finite 15) = Finite (2355101130138059 / 70368744177664) \<and>
   Finite (4710202260276117 / 140737488355328) \<noteq> Finite (2355101130138059 / 70368744177664)"
  by (simp add: price_micro demo_sql_value demo_sql_ha_value non_ha_plus_base del: fl_add.simps)

text \<open>
  C8. The demo scenario returns a result whose \<^verbatim>\<open>gke\<close> entry is the float
  \<open>4.854\<close> and whose \<^verbatim>\<open>cloud_sql\<close> entry is the float \<open>18.468\<close>.  They are what
  \<^verbatim>\<open>calculate_gke_cost\<close> and \<^verbatim>\<open>calculate_cloud_sql_cost\<close> return for the demo
  components alone (\<^verbatim>\<open>24.27 * 1 * 0.2\<close> and \<^verbatim>\<open>15.00 + 20*0.17 + 5*0.17*0.08\<close>
  in float arithmetic), whatever the other line items are.
\<close>

theorem demo_node_and_database_entries:
  "\<exists>r. calculate_scenario_cost ''demo'' = Inr r \<and>
       subscript (cost_breakdown r) ''gke'' = Inr (PyFloat (fl_round (4854 / 1000))) \<and>
       subscript (cost_breakdown r) ''cloud_sql'' = Inr (PyFloat (fl_round (18468 / 1000))) \<and>
       calculate_gke_cost ''e2-small'' 1 True = Inr (fl_round (4854 / 1000)) \<and>
       calculate_cloud_sql_cost ''db-f1-micro'' 20 False 5 = Inr (fl_round (18468 / 1000))"
proof -
  from scenario_ok(1) obtain r where r: "calculate_scenario_cost ''demo'' = Inr r" by blast
  from result_fields(4)[OF r] have c: "scenario_costs ''demo'' (snd (scenarios ! 0)) = Inr (cost_breakdown r)"
    by (simp add: map_of_scenarios)
  have g: "c_gke_nodes (cfg_components (snd (scenarios ! 0))) = (''e2-small'', 1, True)"
    and q: "c_cloud_sql (cfg_components (snd (scenarios ! 0))) = (''db-f1-micro'', 20, False, 5)"
    by (simp_all add: scenarios_def)
  from scenario_costs_entries[OF c g q]
  have "subscript (cost_breakdown r) ''gke'' = Inr (PyFloat (Finite (5465118147814097 / 1125899906842624)))"
    and "subscript (cost_breakdown r) ''cloud_sql'' = Inr (PyFloat (Finite (5198279869892395 / 281474976710656)))"
    by (auto simp: demo_gke_value demo_sql_value)
  then show ?thesis
    using r by (simp only: lit_4_854 lit_18_468 demo_gke_value demo_sql_value) blast
qed

section \<open>Comparing scenarios\<close>

text \<open>
  C9. When \<^verbatim>\<open>compare_scenarios\<close> returns, the keys of its result are the
  names of the input list, each once, in the order of their first occurrence
  (the input list itself when no name is repeated), and the value at each name
  is the result that \<^verbatim>\<open>calculate_scenario_cost\<close> returns for that name on its
  own.
\<close>

theorem compare_scenarios_independent:
  assumes "compare_scenarios names = Inr results"
  shows "set (map fst results) = set names \<and>
         map fst results = rev (remdups (rev names)) \<and>
         (distinct names \<longrightarrow> map fst results = names) \<and>
         (\<forall>name \<in> set names. \<exists>r. calculate_scenario_cost name = Inr r \<and> subscript results name = Inr r)"
proof -
  have l: "compare_loop [] names = Inr results" using assms by (simp add: compare_scenarios_def)
  have k: "map fst results = rev (remdups (rev names))"
    using compare_loop_keys[OF l] by simp
  then have s: "set (map fst results) = set names" by simp
  have d: "distinct names \<longrightarrow> map fst results = names"
    using k by (simp add: distinct_remdups_id)
  have v: "\<forall>name \<in> set names. \<exists>r. calculate_scenario_cost name = Inr r \<and> subscript results name = Inr r"
    using compare_loop_values[OF l] by (auto simp: subscript_def)
  show ?thesis using k s d v by blast
qed

theorem compare_scenarios_independent_witness:
  "\<exists>results. compare_scenarios [''demo'', ''production''] = Inr results \<and>
     map fst results = [''demo'', ''production''] \<and>
     (\<exists>r. calculate_scenario_cost ''demo'' = Inr r \<and> subscript results ''demo'' = Inr r) \<and>
     (\<exists>r. calculate_scenario_cost ''production'' = Inr r \<and> subscript results ''production'' = Inr r)"
proof -
  from scenario_ok(1) obtain r1 where r1: "calculate_scenario_cost ''demo'' = Inr r1" by blast
  from scenario_ok(3) obtain r3 where r3: "calculate_scenario_cost ''production'' = Inr r3" by blast
  have h: "compare_scenarios [''demo'', ''production''] = Inr [(''demo'', r1), (''production'', r3)]"
    by (simp add: compare_scenarios_def r1 r3)
  from compare_scenarios_independent[OF h] h show ?thesis by simp
qed

text \<open>
  C10. Each of the four scenarios returns a result: every lookup in the price
  table finds its key.  No call of \<^verbatim>\<open>calculate_scenario_cost\<close>, whatever the
  name, raises \<^verbatim>\<open>KeyError\<close>.
\<close>

theorem recognized_scenarios_succeed:
  "(\<exists>r. calculate_scenario_cost ''demo'' = Inr r) \<and>
   (\<exists>r. calculate_scenario_cost ''staging'' = Inr r) \<and>
   (\<exists>r. calculate_scenario_cost ''production'' = Inr r) \<and>
   (\<exists>r. calculate_scenario_cost ''enterprise'' = Inr r) \<and>
   (\<forall>scenario key. calculate_scenario_cost scenario \<noteq> Inl (KeyError key))"
proof -
  have "calculate_scenario_cost scenario \<noteq> Inl (KeyError key)" for scenario key
  proof (cases "scenario \<in> {''demo'', ''staging'', ''production'', ''enterprise''}")
    case True
    then show ?thesis using scenario_ok by auto
  next
    case False
    then show ?thesis by (simp add: calculate_scenario_cost_def map_of_scenarios_None)
  qed
  then show ?thesis using scenario_ok by blast
qed

end
